theory Spec2Isabelle
  imports Main "HOL-Library.Char_ord" "HOL-Library.List_Lexorder"
begin

section \<open>The dynamic data-flow analyzer of \<open>src/utils/dataFlow.ts\<close>\<close>

text \<open>
  The analyzer is the Python program that \<open>runDataFlowAnalysis\<close> embeds: the classes
  \<open>LineVarCollector\<close> and \<open>Analyzer\<close> and the script that drives them. This theory
  embeds that Python code. What the host interpreter contributes (the syntax tree
  delivered by \<open>ast.parse\<close>, the frames and events delivered to the trace function, the
  iteration order of a \<open>set\<close>) enters the model as data or as a parameter.
\<close>

subsection \<open>Exceptions and the ways a block is left\<close>

text \<open>
  An exception object of class \<open>Exception\<close> (or of a subclass), the class that the
  \<open>except Exception\<close> clauses of the analyzer name; the string is its description.
\<close>

datatype pyexc = PyException string

text \<open>
  What a statement may raise: an \<open>Exception\<close>, or an exception of another class below
  \<open>BaseException\<close> (\<open>SystemExit\<close>, \<open>KeyboardInterrupt\<close>).
\<close>

datatype raised = Exception pyexc | BaseException string

text \<open>How a block of statements is left.\<close>

datatype 'a completion = Falls_through | Returns 'a | Raises raised

text \<open>
  \<open>try: body except Exception: handler\<close>, on the state and completion of the body:
  the handler runs when the body raised an \<open>Exception\<close>, from the state the body
  left; any other completion of the body, also another \<open>BaseException\<close>, is the
  completion of the statement.
\<close>

definition try_except_Exception ::
  "'s \<times> 'a completion \<Rightarrow> ('s \<Rightarrow> pyexc \<Rightarrow> 's \<times> 'a completion) \<Rightarrow> 's \<times> 'a completion" where
  "try_except_Exception body handler =
     (case body of
        (s, Raises (Exception e)) \<Rightarrow> handler s e
      | (s, c) \<Rightarrow> (s, c))"

text \<open>
  \<open>try: body finally: handler\<close>. The handler runs however the body is left. When the
  handler itself returns or raises, that is how the statement is left and the body's
  pending return value or exception is discarded; when it falls through, the statement
  is left the way the body was.
\<close>

definition try_finally :: "'a completion \<Rightarrow> 'a completion \<Rightarrow> 'a completion" where
  "try_finally body_c finally_c =
     (case finally_c of Falls_through \<Rightarrow> body_c | Returns v \<Rightarrow> Returns v | Raises e \<Rightarrow> Raises e)"

text \<open>
  A trace function, as \<open>sys.settrace\<close> installs and a trace function returns: the
  bound method \<open>self.tracer\<close> of the analyzer, or a function of someone else.
\<close>

datatype trace_fn = Analyzer_tracer | Foreign_trace_fn nat

subsection \<open>Host values: dictionaries, frames, iteration order\<close>

type_synonym name = string

text \<open>
  A namespace dictionary of the running program, as far as the analyzer inspects it: its
  identity (for \<open>is\<close>) and its keys (for \<open>in\<close>).
\<close>

record pydict =
  dict_id :: nat
  dict_keys :: "name set"

text \<open>
  A frame object as the trace function receives it. \<open>f_locals\<close> is computed by the
  interpreter on each access; that computation may fail (with \<open>MemoryError\<close>, an
  \<open>Exception\<close>) or be interrupted (by \<open>KeyboardInterrupt\<close>, a \<open>BaseException\<close>
  that is no \<open>Exception\<close>): the attribute is a dictionary or what the access raises.
  \<open>f_globals\<close>, \<open>f_builtins\<close>, \<open>f_lineno\<close> and \<open>f_code.co_filename\<close> are
  stored members of every frame. \<open>frame_id\<close> is \<open>id(frame)\<close>.
\<close>

record frame =
  co_filename :: string
  f_lineno :: nat
  f_locals :: "raised + pydict"
  f_globals :: pydict
  f_builtins :: "name set"
  frame_id :: nat

text \<open>
  The order in which the interpreter iterates over a \<open>set\<close> of strings is not fixed by
  the language (it depends on string hashing). It is a parameter of the model; all that
  is known of it is that it enumerates the elements of a finite set, each once.
\<close>

type_synonym set_iter = "name set \<Rightarrow> name list"

definition enumerates :: "set_iter \<Rightarrow> bool" where
  "enumerates it = (\<forall>S. finite S \<longrightarrow> set (it S) = S \<and> distinct (it S))"

subsection \<open>The static line classifier: \<open>LineVarCollector\<close>\<close>

text \<open>
  The syntax tree that \<open>ast.parse\<close> returns, as far as the collector tells node classes
  apart: the five classes it has a \<open>visit_\<close> method for, with the fields those methods
  read, and \<open>Other\<close> for a node of any other class (\<open>Module\<close>, \<open>Expr\<close>, \<open>BinOp\<close>,
  \<open>Constant\<close>, \<open>Call\<close>, \<open>If\<close>, ...) with its child nodes in field order. The last
  argument of a statement and of \<open>Name\<close> is \<open>lineno\<close>. An item of \<open>With\<close> is a
  \<open>withitem\<close>: \<open>context_expr\<close> and \<open>optional_vars\<close>.
\<close>

datatype expr_context = Load | Store | Del

datatype node =
    Name name expr_context nat
  | Assign "node list" node nat
  | AnnAssign node node "node option" nat
  | AugAssign node node nat
  | For node node "node list" "node list" nat
  | With "(node \<times> node option) list" "node list" nat
  | Other "node list"

text \<open>
  \<open>ast.walk(node)\<close>: the node and all its descendants. (The library yields them breadth
  first; the collector only ever builds sets from them, and this list is depth first.)
\<close>

fun walk :: "node \<Rightarrow> node list" where
  "walk (Name i c l) = [Name i c l]"
| "walk (Assign ts v l) = Assign ts v l # concat (map walk ts) @ walk v"
| "walk (AnnAssign t ann v l) =
     AnnAssign t ann v l # walk t @ walk ann @ (case v of None \<Rightarrow> [] | Some e \<Rightarrow> walk e)"
| "walk (AugAssign t v l) = AugAssign t v l # walk t @ walk v"
| "walk (For t i body orelse l) =
     For t i body orelse l # walk t @ walk i @ concat (map walk body) @ concat (map walk orelse)"
| "walk (With items body l) =
     With items body l
       # concat (map (\<lambda>(e, ov). walk e @ (case ov of None \<Rightarrow> [] | Some t \<Rightarrow> walk t)) items)
       @ concat (map walk body)"
| "walk (Other cs) = Other cs # concat (map walk cs)"

text \<open>The four \<open>defaultdict(set)\<close> tables of the collector.\<close>

record collector =
  used_by_line :: "nat \<rightharpoonup> name set"
  assigned_by_line :: "nat \<rightharpoonup> name set"
  rhs_by_line :: "nat \<rightharpoonup> name set"
  all_vars_by_line :: "nat \<rightharpoonup> name set"

text \<open>\<open>d.get(k, set())\<close>\<close>

definition dict_get :: "('k \<rightharpoonup> 'v set) \<Rightarrow> 'k \<Rightarrow> 'v set" where
  "dict_get d k = (case d k of None \<Rightarrow> {} | Some s \<Rightarrow> s)"

text \<open>
  \<open>d[k] |= s\<close> on a \<open>defaultdict(set)\<close>: indexing creates the entry when it is
  missing, also when \<open>s\<close> is empty. \<open>d[k].add(x)\<close> is \<open>d[k] |= {x}\<close>.
\<close>

definition dict_union :: "('k \<rightharpoonup> 'v set) \<Rightarrow> 'k \<Rightarrow> 'v set \<Rightarrow> ('k \<rightharpoonup> 'v set)" where
  "dict_union d k s = d(k \<mapsto> dict_get d k \<union> s)"

text \<open>\<open>LineVarCollector._names_in\<close>, \<open>_targets_names\<close> and \<open>_value_names\<close>.\<close>

definition names_in :: "node \<Rightarrow> expr_context set \<Rightarrow> name set" where
  "names_in node ctx_types =
     set (concat (map (\<lambda>n. case n of Name i c l \<Rightarrow> if c \<in> ctx_types then [i] else [] | _ \<Rightarrow> [])
                      (walk node)))"

definition targets_names :: "node \<Rightarrow> name set" where
  "targets_names target = names_in target {Store}"

definition value_names :: "node \<Rightarrow> name set" where
  "value_names v = names_in v {Load}"

text \<open>
  \<open>NodeVisitor.visit\<close> with the five \<open>visit_\<close> methods of the collector. Each method
  ends with \<open>self.generic_visit(node)\<close>, which visits the child nodes in field order;
  for a node of another class \<open>visit\<close> is \<open>generic_visit\<close>. A \<open>withitem\<close> has no
  method of its own, so visiting it visits its two fields.
\<close>

fun visit :: "node \<Rightarrow> collector \<Rightarrow> collector" where
  "visit (Name i c l) col =
     (if c = Load then col\<lparr>used_by_line := dict_union (used_by_line col) l {i}\<rparr>
      else if c = Store then col\<lparr>assigned_by_line := dict_union (assigned_by_line col) l {i}\<rparr>
      else col)"
| "visit (Assign ts v l) col =
     (let assigned = fold (\<lambda>t acc. acc \<union> targets_names t) ts {};
          col1 = (if assigned \<noteq> {}
                  then col\<lparr>assigned_by_line := dict_union (assigned_by_line col) l assigned\<rparr>
                  else col);
          col2 = col1\<lparr>rhs_by_line := dict_union (rhs_by_line col1) l (value_names v)\<rparr>
      in visit v (fold visit ts col2))"
| "visit (AnnAssign t ann v l) col =
     (let col2 = (case v of
                    None \<Rightarrow> col
                  | Some e \<Rightarrow>
                      (let col1 = col\<lparr>assigned_by_line :=
                                        dict_union (assigned_by_line col) l (targets_names t)\<rparr>
                       in col1\<lparr>rhs_by_line := dict_union (rhs_by_line col1) l (value_names e)\<rparr>));
          col3 = visit ann (visit t col2)
      in case v of None \<Rightarrow> col3 | Some e \<Rightarrow> visit e col3)"
| "visit (AugAssign t v l) col =
     (let tnames = targets_names t;
          col1 = col\<lparr>assigned_by_line := dict_union (assigned_by_line col) l tnames\<rparr>;
          col2 = col1\<lparr>rhs_by_line := dict_union (rhs_by_line col1) l (value_names v)\<rparr>;
          col3 = col2\<lparr>rhs_by_line := dict_union (rhs_by_line col2) l (names_in t {Load, Store, Del})\<rparr>
      in visit v (visit t col3))"
| "visit (For t i body orelse l) col =
     (let col1 = col\<lparr>assigned_by_line := dict_union (assigned_by_line col) l (targets_names t)\<rparr>;
          col2 = col1\<lparr>rhs_by_line := dict_union (rhs_by_line col1) l (value_names i)\<rparr>
      in fold visit orelse (fold visit body (visit i (visit t col2))))"
| "visit (With items body l) col =
     (let col1 = fold (\<lambda>(e, ov) c.
                    (let c1 = (case ov of
                                 None \<Rightarrow> c
                               | Some t \<Rightarrow> c\<lparr>assigned_by_line :=
                                               dict_union (assigned_by_line c) l (targets_names t)\<rparr>)
                     in c1\<lparr>rhs_by_line := dict_union (rhs_by_line c1) l (value_names e)\<rparr>))
                  items col;
          col2 = fold (\<lambda>(e, ov) c. (case ov of None \<Rightarrow> visit e c | Some t \<Rightarrow> visit t (visit e c)))
                  items col1
      in fold visit body col2)"
| "visit (Other cs) col = fold visit cs col"

text \<open>
  \<open>LineVarCollector.finalize\<close>: every line that is a key of \<open>used_by_line\<close> or of
  \<open>assigned_by_line\<close> gets the union of its two sets.
\<close>

definition finalize :: "collector \<Rightarrow> collector" where
  "finalize col =
     col\<lparr>all_vars_by_line :=
           (\<lambda>l. if used_by_line col l \<noteq> None \<or> assigned_by_line col l \<noteq> None
                then Some (dict_get (used_by_line col) l \<union> dict_get (assigned_by_line col) l)
                else all_vars_by_line col l)\<rparr>"

text \<open>\<open>LineVarCollector.__init__\<close>\<close>

definition new_collector :: collector where
  "new_collector =
     \<lparr>used_by_line = Map.empty, assigned_by_line = Map.empty,
      rhs_by_line = Map.empty, all_vars_by_line = Map.empty\<rparr>"

subsection \<open>The state of an \<open>Analyzer\<close> object\<close>

text \<open>
  The fields assigned in \<open>Analyzer.__init__\<close>. \<open>line_exec_count\<close> is a
  \<open>defaultdict(int)\<close> and \<open>frame_deps\<close> a \<open>defaultdict\<close> of dictionaries, both only
  ever indexed: total functions whose default is \<open>0\<close> and the empty dictionary.
  \<open>global_deps\<close> and each \<open>frame_deps[fid]\<close> are read with \<open>.get(key, set())\<close>:
  partial maps. The fields \<open>vars_by_line\<close>, \<open>assigned_by_line\<close>, \<open>rhs_by_line\<close>
  and \<open>used_by_line\<close> are further references to the tables of \<open>collector\<close>, which
  nothing modifies after \<open>__init__\<close>; the model reads them from \<open>collector\<close>.
\<close>

record analyzer =
  source_abspath :: string
  records :: "string list"
  line_exec_count :: "nat \<Rightarrow> nat"
  frame_deps :: "nat \<Rightarrow> name \<rightharpoonup> name set"
  global_deps :: "name \<rightharpoonup> name set"
  collector :: collector

text \<open>
  \<open>Analyzer.__init__\<close>, given the absolute path of the source file and the tree that
  \<open>ast.parse\<close> returns for its text.
\<close>

definition Analyzer_init :: "string \<Rightarrow> node \<Rightarrow> analyzer" where
  "Analyzer_init path tree =
     \<lparr>source_abspath = path, records = [], line_exec_count = (\<lambda>l. 0),
      frame_deps = (\<lambda>fid. Map.empty), global_deps = Map.empty,
      collector = finalize (visit tree new_collector)\<rparr>"

subsection \<open>Scope store and dependency propagation\<close>

text \<open>
  \<open>Analyzer._is_builtin\<close>. A frame always has the attribute \<open>f_builtins\<close> and it is a
  dictionary, so the function answers \<open>name in frame.f_builtins\<close>; the fallback to
  \<open>__builtins__\<close>, the \<open>hasattr\<close> test on a module and the \<open>except\<close> clause are not
  reached for a frame object.
\<close>

definition is_builtin :: "name \<Rightarrow> frame \<Rightarrow> bool" where
  "is_builtin n fr = (n \<in> f_builtins fr)"

text \<open>
  \<open>Analyzer._get_current_deps_for\<close>. The test \<open>frame.f_locals is frame.f_globals\<close>
  reads \<open>f_locals\<close> first; what that access raises, of either class, leaves the
  function.
\<close>

definition get_current_deps_for :: "analyzer \<Rightarrow> frame \<Rightarrow> name \<Rightarrow> raised + name set" where
  "get_current_deps_for a fr var =
     (let fid = frame_id fr in
      case f_locals fr of
        Inl e \<Rightarrow> Inl e
      | Inr ls \<Rightarrow>
          (let is_module_level = (dict_id ls = dict_id (f_globals fr)) in
           if var \<in> dict_keys ls then
             (if is_module_level then Inr (dict_get (global_deps a) var)
              else Inr (dict_get (frame_deps a fid) var))
           else if var \<in> dict_keys (f_globals fr) then Inr (dict_get (global_deps a) var)
           else Inr {}))"

text \<open>
  The first loop of \<open>Analyzer._set_deps_for_assignment\<close>:
  \<open>for src in cleaned_rhs: union_deps |= get(frame, src); union_deps.add(src)\<close>.
\<close>

fun union_loop :: "analyzer \<Rightarrow> frame \<Rightarrow> name list \<Rightarrow> name set \<Rightarrow> raised + name set" where
  "union_loop a fr [] union_deps = Inr union_deps"
| "union_loop a fr (src # rest) union_deps =
     (case get_current_deps_for a fr src of
        Inl e \<Rightarrow> Inl e
      | Inr d \<Rightarrow> union_loop a fr rest (insert src (union_deps \<union> d)))"

text \<open>
  The second loop: \<open>for tgt in targets\<close>, storing a copy of the union in the global
  store or in the store of this frame.
\<close>

fun store_loop :: "bool \<Rightarrow> nat \<Rightarrow> name set \<Rightarrow> name list \<Rightarrow> analyzer \<Rightarrow> analyzer" where
  "store_loop is_module_level fid union_deps [] a = a"
| "store_loop is_module_level fid union_deps (tgt # rest) a =
     store_loop is_module_level fid union_deps rest
       (if is_module_level then a\<lparr>global_deps := (global_deps a)(tgt \<mapsto> union_deps)\<rparr>
        else a\<lparr>frame_deps := (frame_deps a)(fid := (frame_deps a fid)(tgt \<mapsto> union_deps))\<rparr>)"

text \<open>
  \<open>Analyzer._set_deps_for_assignment\<close>: \<open>targets\<close> is the set the caller passes and
  the loop iterates over, \<open>rhs_names\<close> is a list. The result is the state of the
  analyzer when the function is left and the exception it is left with, if any.
\<close>

definition set_deps_for_assignment ::
  "set_iter \<Rightarrow> analyzer \<Rightarrow> frame \<Rightarrow> name set \<Rightarrow> name list \<Rightarrow> analyzer \<times> raised option" where
  "set_deps_for_assignment it a fr targets rhs_names =
     (let cleaned_rhs = filter (\<lambda>n. \<not> is_builtin n fr) rhs_names in
      case union_loop a fr cleaned_rhs {} of
        Inl e \<Rightarrow> (a, Some e)
      | Inr union_deps \<Rightarrow>
          (let fid = frame_id fr in
           case f_locals fr of
             Inl e \<Rightarrow> (a, Some e)
           | Inr ls \<Rightarrow>
               (let is_module_level = (dict_id ls = dict_id (f_globals fr)) in
                (store_loop is_module_level fid union_deps (it targets) a, None))))"

subsection \<open>The trace function and the emitted records\<close>

text \<open>\<open>str(n)\<close> for a non-negative integer: its decimal digits.\<close>

fun str_nat :: "nat \<Rightarrow> string" where
  "str_nat n =
     (if n < 10 then [char_of (48 + n)]
      else str_nat (n div 10) @ [char_of (48 + n mod 10)])"

declare str_nat.simps [simp del]

text \<open>The record text \<open>f"{line},{ecount},{v},{d}"\<close>.\<close>

definition fmt_record :: "nat \<Rightarrow> nat \<Rightarrow> name \<Rightarrow> name \<Rightarrow> string" where
  "fmt_record line ecount v d =
     str_nat line @ '','' @ str_nat ecount @ '','' @ v @ '','' @ d"

text \<open>
  \<open>sorted(s)\<close> for a set of strings: the elements in iteration order, then sorted.
  Strings are compared character by character, by character code, a proper prefix
  before the longer string: the order of Python's \<open>str\<close> and of \<open>char list\<close> here.
\<close>

definition py_sorted :: "set_iter \<Rightarrow> name set \<Rightarrow> name list" where
  "py_sorted it s = sort (it s)"

text \<open>
  The dictionary comprehension \<open>{v: self._get_current_deps_for(frame, v) for v in
  emit_vars}\<close>, over the variables in iteration order.
\<close>

fun snapshot ::
  "analyzer \<Rightarrow> frame \<Rightarrow> name list \<Rightarrow> (name \<rightharpoonup> name set) \<Rightarrow> raised + (name \<rightharpoonup> name set)" where
  "snapshot a fr [] pre_deps = Inr pre_deps"
| "snapshot a fr (v # vs) pre_deps =
     (case get_current_deps_for a fr v of
        Inl e \<Rightarrow> Inl e
      | Inr d \<Rightarrow> snapshot a fr vs (pre_deps(v \<mapsto> d)))"

text \<open>
  The emission loops. \<open>pre_deps[v]\<close> raises \<open>KeyError\<close> for a missing key, with the
  records appended so far kept.
\<close>

fun emit_loop ::
  "set_iter \<Rightarrow> nat \<Rightarrow> nat \<Rightarrow> (name \<rightharpoonup> name set) \<Rightarrow> name list \<Rightarrow> analyzer
     \<Rightarrow> analyzer \<times> raised option" where
  "emit_loop it line ecount pre_deps [] a = (a, None)"
| "emit_loop it line ecount pre_deps (v # vs) a =
     (case pre_deps v of
        None \<Rightarrow> (a, Some (Exception (PyException ''KeyError'')))
      | Some ds \<Rightarrow>
          emit_loop it line ecount pre_deps vs
            (a\<lparr>records := records a @ map (fmt_record line ecount v) (py_sorted it ds)\<rparr>))"

text \<open>
  The body of the \<open>try\<close> statement of \<open>Analyzer.tracer\<close>: the state of the analyzer
  when the body is left, and how it is left.
\<close>

definition tracer_body ::
  "set_iter \<Rightarrow> analyzer \<Rightarrow> frame \<Rightarrow> string \<Rightarrow> analyzer \<times> trace_fn completion" where
  "tracer_body it a fr event =
     (if co_filename fr \<noteq> source_abspath a then (a, Returns Analyzer_tracer)
      else if event = ''line'' then
        (let line = f_lineno fr;
             assigned = dict_get (assigned_by_line (collector a)) line;
             rhs = dict_get (rhs_by_line (collector a)) line;
             emit_vars = dict_get (used_by_line (collector a)) line
                           \<union> (dict_get (assigned_by_line (collector a)) line
                                \<inter> dict_get (rhs_by_line (collector a)) line)
         in case snapshot a fr (it emit_vars) Map.empty of
              Inl e \<Rightarrow> (a, Raises e)
            | Inr pre_deps \<Rightarrow>
                (case (if assigned \<noteq> {} then set_deps_for_assignment it a fr assigned (it rhs)
                       else (a, None)) of
                   (a1, Some e) \<Rightarrow> (a1, Raises e)
                 | (a1, None) \<Rightarrow>
                     (let a2 = a1\<lparr>line_exec_count :=
                                   (line_exec_count a1)(line := line_exec_count a1 line + 1)\<rparr>;
                          ecount = line_exec_count a2 line
                      in case emit_loop it line ecount pre_deps (py_sorted it emit_vars) a2 of
                           (a3, Some e) \<Rightarrow> (a3, Raises e)
                         | (a3, None) \<Rightarrow> (a3, Returns Analyzer_tracer))))
      else (a, Returns Analyzer_tracer))"

text \<open>
  \<open>Analyzer.tracer\<close>: the \<open>try\<close> body with \<open>except Exception: return self.tracer\<close>.
  An \<open>Exception\<close> raised in the body is caught; a \<open>BaseException\<close> of another class
  is not and leaves the method. The arguments are those of the Python method but for
  \<open>arg\<close>, which it never reads.
\<close>

definition tracer ::
  "set_iter \<Rightarrow> analyzer \<Rightarrow> frame \<Rightarrow> string \<Rightarrow> analyzer \<times> trace_fn completion" where
  "tracer it a fr event =
     try_except_Exception (tracer_body it a fr event) (\<lambda>a' e. (a', Returns Analyzer_tracer))"

subsection \<open>\<open>Analyzer.run\<close> and the script around it\<close>

text \<open>
  The part of module \<open>sys\<close> that \<open>run\<close> touches: the installed trace function
  (or \<open>None\<close>) and \<open>sys.path\<close>.
\<close>

record sys_state =
  sys_trace :: "trace_fn option"
  sys_path :: "string list"

text \<open>
  One execution of the analyzed file by \<open>runpy.run_path\<close> with the trace function
  installed: the frames and events the interpreter passes to the trace function, in
  order, and the exception that ends the execution, if one does. (After a call in which
  the trace function raises, the interpreter removes the trace function and passes it no
  further event.)
\<close>

record execution =
  trace_events :: "(frame \<times> string) list"
  ended_by :: "raised option"

text \<open>\<open>os.path.dirname\<close> (POSIX).\<close>

definition dirname :: "string \<Rightarrow> string" where
  "dirname p =
     (let head = rev (dropWhile (\<lambda>c. c \<noteq> CHR ''/'') (rev p)) in
      if head \<noteq> [] \<and> head \<noteq> replicate (length head) CHR ''/''
      then rev (dropWhile (\<lambda>c. c = CHR ''/'') (rev head))
      else head)"

text \<open>
  \<open>Analyzer.run\<close>: how the call is left, the analyzer and \<open>sys\<close> afterwards. Each
  event of the execution is a call of the installed trace function on the analyzer as
  the calls before left it.
\<close>

definition run ::
  "set_iter \<Rightarrow> analyzer \<Rightarrow> sys_state \<Rightarrow> execution
     \<Rightarrow> string list completion \<times> analyzer \<times> sys_state" where
  "run it a sys ex =
     (let prev_trace = sys_trace sys;
          sys1 = sys\<lparr>sys_trace := Some Analyzer_tracer\<rparr>;
          target_dir = dirname (source_abspath a);
          sys2 = (if target_dir \<noteq> [] \<and> target_dir \<notin> set (sys_path sys1)
                  then sys1\<lparr>sys_path := target_dir # sys_path sys1\<rparr> else sys1);
          a' = fold (\<lambda>(fr, event) a. fst (tracer it a fr event)) (trace_events ex) a;
          body_c = (case ended_by ex of None \<Rightarrow> Falls_through | Some e \<Rightarrow> Raises e);
          sys3 = sys2\<lparr>sys_trace := prev_trace\<rparr>;
          finally_c = Returns (records a')
      in (try_finally body_c finally_c, a', sys3))"

text \<open>\<open>s.split(",")\<close>\<close>

fun split_comma :: "string \<Rightarrow> string list" where
  "split_comma [] = [[]]"
| "split_comma (c # cs) =
     (if c = CHR '','' then [] # split_comma cs
      else (case split_comma cs of [] \<Rightarrow> [[c]] | p # ps \<Rightarrow> (c # p) # ps))"

text \<open>
  \<open>int(s)\<close> for a string of decimal digits, which is what \<open>str\<close> of a count or of a
  line number is. Any other text raises \<open>ValueError\<close> here (Python also accepts a sign,
  surrounding blanks and underscores between digits; no record text has them).
\<close>

definition is_digit :: "char \<Rightarrow> bool" where
  "is_digit c = (48 \<le> (of_char c :: nat) \<and> (of_char c :: nat) \<le> 57)"

definition int_of_str :: "string \<Rightarrow> pyexc + int" where
  "int_of_str s =
     (if s \<noteq> [] \<and> list_all is_digit s
      then Inr (int (foldl (\<lambda>acc c. 10 * acc + (of_char c - 48)) 0 s))
      else Inl (PyException ''ValueError''))"

text \<open>The dictionaries of \<open>result_list\<close>, type \<open>DataFlowRecord\<close> of \<open>types.ts\<close>.\<close>

record DataFlowRecord =
  line :: int
  execution :: int
  variable :: string
  dependency :: string

text \<open>
  The loop that builds \<open>result_list\<close>: a record text with four comma-separated parts
  becomes a dictionary, any other text is skipped.
\<close>

fun result_list :: "string list \<Rightarrow> pyexc + DataFlowRecord list" where
  "result_list [] = Inr []"
| "result_list (r # rs) =
     (let parts = split_comma r in
      if length parts = 4 then
        (case int_of_str (parts ! 0) of
           Inl e \<Rightarrow> Inl e
         | Inr l \<Rightarrow>
             (case int_of_str (parts ! 1) of
                Inl e \<Rightarrow> Inl e
              | Inr n \<Rightarrow>
                  (case result_list rs of
                     Inl e \<Rightarrow> Inl e
                   | Inr ds \<Rightarrow>
                       Inr (\<lparr>line = l, execution = n, variable = parts ! 2,
                             dependency = parts ! 3\<rparr> # ds))))
      else result_list rs)"

text \<open>
  The script below the two classes: \<open>analyzer = Analyzer(temp_file)\<close>,
  \<open>results = analyzer.run()\<close>, the conversion to \<open>result_list\<close>. Its inputs are what
  the host supplies: the name of the temporary file, the tree \<open>ast.parse\<close> returns for
  the text written to it, the state of \<open>sys\<close> and the execution of the file. A call
  of \<open>run\<close> that fell through would return \<open>None\<close>, on which \<open>len\<close> raises.
\<close>

definition analysis_script ::
  "set_iter \<Rightarrow> string \<Rightarrow> node \<Rightarrow> sys_state \<Rightarrow> execution \<Rightarrow> raised + DataFlowRecord list" where
  "analysis_script it temp_file tree sys ex =
     (case fst (run it (Analyzer_init temp_file tree) sys ex) of
        Raises e \<Rightarrow> Inl e
      | Falls_through \<Rightarrow> Inl (Exception (PyException ''TypeError''))
      | Returns results \<Rightarrow>
          (case result_list results of Inl e \<Rightarrow> Inl (Exception e) | Inr ds \<Rightarrow> Inr ds))"

subsection \<open>Notions of the specification\<close>

text \<open>
  The dependency set that the scope store currently gives for a name in a frame: the value
  of \<open>_get_current_deps_for\<close> (the empty set where that call raises).
\<close>

definition current_deps :: "analyzer \<Rightarrow> frame \<Rightarrow> name \<Rightarrow> name set" where
  "current_deps a fr var = (case get_current_deps_for a fr var of Inl e \<Rightarrow> {} | Inr d \<Rightarrow> d)"

text \<open>
  A module-level invocation: \<open>frame.f_locals is frame.f_globals\<close>.
\<close>

definition module_level :: "frame \<Rightarrow> bool" where
  "module_level fr =
     (case f_locals fr of Inl e \<Rightarrow> False | Inr ls \<Rightarrow> dict_id ls = dict_id (f_globals fr))"

text \<open>
  The entry that the scope store holds for a name in the tier where an assignment made by
  this frame is stored.
\<close>

definition stored_deps :: "analyzer \<Rightarrow> frame \<Rightarrow> name \<Rightarrow> name set option" where
  "stored_deps a fr var =
     (if module_level fr then global_deps a var else frame_deps a (frame_id fr) var)"

text \<open>
  The propagator of the specification: \<open>cleanRhs\<close> is \<open>rhsNames\<close> minus builtins, and
  \<open>union\<close> is the union of \<open>get(invocation, n)\<close> over \<open>cleanRhs\<close>, together with
  \<open>cleanRhs\<close>.
\<close>

definition cleanRhs :: "frame \<Rightarrow> name set \<Rightarrow> name set" where
  "cleanRhs fr rhsNames = Set.filter (\<lambda>n. \<not> is_builtin n fr) rhsNames"

definition spec_union :: "analyzer \<Rightarrow> frame \<Rightarrow> name set \<Rightarrow> name set" where
  "spec_union a fr rhsNames =
     (\<Union>n\<in>cleanRhs fr rhsNames. current_deps a fr n) \<union> cleanRhs fr rhsNames"

text \<open>
  The resolution rule for a read as the specification words it: at module level the
  entry of the global store; otherwise the entry of the invocation's local store, else
  that of the global store, else the empty set.
\<close>

definition spec_get :: "analyzer \<Rightarrow> frame \<Rightarrow> name \<Rightarrow> name set" where
  "spec_get a fr var =
     (if module_level fr then dict_get (global_deps a) var
      else (case frame_deps a (frame_id fr) var of
              Some d \<Rightarrow> d
            | None \<Rightarrow> (case global_deps a var of Some d \<Rightarrow> d | None \<Rightarrow> {})))"

text \<open>
  The names whose dependencies a visit of a line reports: \<open>used\<close>, and \<open>assigned\<close>
  names that are also \<open>rhs\<close> names.
\<close>

definition emitVars :: "collector \<Rightarrow> nat \<Rightarrow> name set" where
  "emitVars col l =
     dict_get (used_by_line col) l
       \<union> (dict_get (assigned_by_line col) l \<inter> dict_get (rhs_by_line col) l)"

text \<open>
  The records of one visit of a line, with a given execution count, from given
  dependency sets: variables in lexicographic order, and the dependencies of each in
  lexicographic order.
\<close>

definition records_from ::
  "nat \<Rightarrow> nat \<Rightarrow> name set \<Rightarrow> (name \<Rightarrow> name set) \<Rightarrow> string list" where
  "records_from l ecount vars deps =
     concat (map (\<lambda>v. map (fmt_record l ecount v) (sorted_list_of_set (deps v)))
                 (sorted_list_of_set vars))"

text \<open>
  What one \<open>line\<close> event of the analyzed file does to the analyzer, stated on sets with
  no iteration order: steps 2 to 6 of the hook of the specification. The assigned names
  get the union of the propagator in the tier of the frame, the line's counter goes up by
  one, and the records of the emit variables are appended, built from the dependency
  sets before the assignment. When the local namespace of the frame cannot be read and
  the line has an emit variable or an assigned name, nothing changes.
\<close>

definition line_step :: "analyzer \<Rightarrow> frame \<Rightarrow> analyzer" where
  "line_step a fr =
     (let l = f_lineno fr;
          assigned = dict_get (assigned_by_line (collector a)) l;
          rhs = dict_get (rhs_by_line (collector a)) l;
          emit = emitVars (collector a) l;
          u = spec_union a fr rhs;
          ecount = line_exec_count a l + 1
      in if (emit \<noteq> {} \<or> assigned \<noteq> {}) \<and> isl (f_locals fr) then a
         else (if module_level fr
               then a\<lparr>global_deps := (\<lambda>n. if n \<in> assigned then Some u else global_deps a n)\<rparr>
               else a\<lparr>frame_deps := (frame_deps a)(frame_id fr :=
                         (\<lambda>n. if n \<in> assigned then Some u else frame_deps a (frame_id fr) n))\<rparr>)
              \<lparr>line_exec_count := (line_exec_count a)(l := ecount),
               records := records a @ records_from l ecount emit (current_deps a fr)\<rparr>)"

text \<open>
  Every set of names in the tables of a collector, and every dependency set in the
  stores of an analyzer, is finite, as every Python set is.
\<close>

definition finite_tables :: "collector \<Rightarrow> bool" where
  "finite_tables col =
     (\<forall>l. finite (dict_get (used_by_line col) l)
          \<and> finite (dict_get (assigned_by_line col) l)
          \<and> finite (dict_get (rhs_by_line col) l))"

definition finite_state :: "analyzer \<Rightarrow> bool" where
  "finite_state a =
     (finite_tables (collector a)
      \<and> (\<forall>n. finite (dict_get (global_deps a) n))
      \<and> (\<forall>fid n. finite (dict_get (frame_deps a fid) n)))"

text \<open>
  The events of an execution on which the trace function does more than return: the
  \<open>line\<close> events of frames that run code of the analyzed file. \<open>line_views\<close> are
  the frames of these events without the name of the file.
\<close>

definition own_line_events :: "string \<Rightarrow> (frame \<times> string) list \<Rightarrow> (frame \<times> string) list" where
  "own_line_events path evs = filter (\<lambda>(fr, event). co_filename fr = path \<and> event = ''line'') evs"

definition line_views :: "string \<Rightarrow> (frame \<times> string) list \<Rightarrow> frame list" where
  "line_views path evs = map (\<lambda>(fr, event). fr\<lparr>co_filename := []\<rparr>) (own_line_events path evs)"

text \<open>
  What the trace function reads of a frame besides its identity and the name of its
  file: the line, the keys of the local namespace (if it can be read) and of the global
  one, whether the two are the same dictionary, and the builtin names.
\<close>

definition frame_view :: "frame \<Rightarrow> nat \<times> name set option \<times> name set \<times> bool \<times> name set" where
  "frame_view fr =
     (f_lineno fr,
      (case f_locals fr of Inl e \<Rightarrow> None | Inr ls \<Rightarrow> Some (dict_keys ls)),
      dict_keys (f_globals fr),
      module_level fr,
      f_builtins fr)"

text \<open>
  Two sequences of frames that differ at most in the identities of the frames and of
  their dictionaries and in the file name: frame by frame the same view, and the
  identities of the second sequence are those of the first, renamed.
\<close>

definition same_frames :: "(nat \<Rightarrow> nat) \<Rightarrow> frame list \<Rightarrow> frame list \<Rightarrow> bool" where
  "same_frames renamed frs1 frs2 =
     list_all2 (\<lambda>fr1 fr2. frame_view fr2 = frame_view fr1 \<and> frame_id fr2 = renamed (frame_id fr1))
       frs1 frs2"

text \<open>The frames of the \<open>line\<close> events that an execution delivers for the file.\<close>

definition own_frames :: "string \<Rightarrow> execution \<Rightarrow> frame list" where
  "own_frames path ex = map fst (own_line_events path (trace_events ex))"

text \<open>
  Two analyzer states that differ at most in the frame identities under which the
  dependency stores of frames are kept.
\<close>

definition similar :: "(nat \<Rightarrow> nat) \<Rightarrow> analyzer \<Rightarrow> analyzer \<Rightarrow> bool" where
  "similar renamed a1 a2 =
     (records a2 = records a1 \<and> line_exec_count a2 = line_exec_count a1
      \<and> global_deps a2 = global_deps a1 \<and> collector a2 = collector a1
      \<and> (\<forall>i. frame_deps a2 (renamed i) = frame_deps a1 i))"

subsection \<open>Frames and programs of the examples\<close>

text \<open>
  The frame of the module-level code of file \<open>path\<close>, about to run line \<open>l\<close>, whose
  namespace (dictionary \<open>g\<close>, both \<open>f_locals\<close> and \<open>f_globals\<close>) has the keys \<open>ks\<close>.
\<close>

definition module_frame :: "string \<Rightarrow> nat \<Rightarrow> name set \<Rightarrow> name set \<Rightarrow> nat \<Rightarrow> nat \<Rightarrow> frame" where
  "module_frame path g ks builtins fid l =
     \<lparr>co_filename = path, f_lineno = l,
      f_locals = Inr \<lparr>dict_id = g, dict_keys = ks\<rparr>,
      f_globals = \<lparr>dict_id = g, dict_keys = ks\<rparr>,
      f_builtins = builtins, frame_id = fid\<rparr>"

text \<open>
  The frame of a function call in the file \<open>/tmp/t.py\<close>: its local names are in a
  dictionary of its own.
\<close>

definition call_frame :: "name set \<Rightarrow> name set \<Rightarrow> nat \<Rightarrow> frame" where
  "call_frame local_ks global_ks l =
     \<lparr>co_filename = ''/tmp/t.py'', f_lineno = l,
      f_locals = Inr \<lparr>dict_id = 2, dict_keys = local_ks\<rparr>,
      f_globals = \<lparr>dict_id = 1, dict_keys = global_ks\<rparr>,
      f_builtins = {''print'', ''len''}, frame_id = 11\<rparr>"

text \<open>The module-level frame of \<open>/tmp/t.py\<close>.\<close>

definition top_frame :: "name set \<Rightarrow> nat \<Rightarrow> frame" where
  "top_frame ks l = module_frame ''/tmp/t.py'' 1 ks {''print'', ''len''} 10 l"



text \<open>
  The tree of the program of scenario A,
  \<^verbatim>\<open>a = 1\<close> / \<^verbatim>\<open>b = a\<close> / \<^verbatim>\<open>c = b + a\<close>:
  a \<open>Module\<close> of three \<open>Assign\<close>; the values are a \<open>Constant\<close>, a \<open>Name\<close> and a
  \<open>BinOp\<close> with the children \<open>left\<close>, \<open>op\<close>, \<open>right\<close>.
\<close>

definition scenario_A :: node where
  "scenario_A =
     Other
       [Assign [Name ''a'' Store 1] (Other []) 1,
        Assign [Name ''b'' Store 2] (Name ''a'' Load 2) 2,
        Assign [Name ''c'' Store 3] (Other [Name ''b'' Load 3, Other [], Name ''a'' Load 3]) 3]"

text \<open>
  The tree of the program of scenario B,
  \<^verbatim>\<open>a = [1, 2]\<close> / \<^verbatim>\<open>for x in a:\<close> / \<^verbatim>\<open>    y = x\<close>:
  the value of the first \<open>Assign\<close> is a \<open>List\<close> of two \<open>Constant\<close> (and its \<open>ctx\<close>),
  the \<open>For\<close> has the target \<open>x\<close>, the iterable \<open>a\<close>, one statement in its body and no
  \<open>orelse\<close>.
\<close>

definition scenario_B :: node where
  "scenario_B =
     Other
       [Assign [Name ''a'' Store 1] (Other [Other [], Other [], Other []]) 1,
        For (Name ''x'' Store 2) (Name ''a'' Load 2)
          [Assign [Name ''y'' Store 3] (Name ''x'' Load 3) 3] [] 2]"

text \<open>
  The tree of \<^verbatim>\<open>s = 0\<close> / \<^verbatim>\<open>x = 5\<close> / \<^verbatim>\<open>t = s\<close> /
  \<^verbatim>\<open>t += x\<close> / \<^verbatim>\<open>pass\<close>.
\<close>

definition accumulate :: node where
  "accumulate =
     Other
       [Assign [Name ''s'' Store 1] (Other []) 1,
        Assign [Name ''x'' Store 2] (Other []) 2,
        Assign [Name ''t'' Store 3] (Name ''s'' Load 3) 3,
        AugAssign (Name ''t'' Store 4) (Name ''x'' Load 4) 4,
        Other []]"

text \<open>
  The analyzer of that program when line 4 is about to run for the first time, after the
  \<open>line\<close> events of lines 1 to 3.
\<close>

definition before_line_4 :: analyzer where
  "before_line_4 =
     fold (\<lambda>(fr, event) a. fst (tracer sorted_list_of_set a fr event))
       [(top_frame {} 1, ''line''),
        (top_frame {''s''} 2, ''line''),
        (top_frame {''s'', ''x''} 3, ''line'')]
       (Analyzer_init ''/tmp/t.py'' accumulate)"

text \<open>
  A frame of the library module \<open>runpy\<close>, which runs the analyzed file.
\<close>

definition runpy_frame :: "nat \<Rightarrow> frame" where
  "runpy_frame l =
     \<lparr>co_filename = ''/lib/python3.12/runpy.py'', f_lineno = l,
      f_locals = Inr \<lparr>dict_id = 4, dict_keys = {''path_name'', ''run_name'', ''code''}\<rparr>,
      f_globals = \<lparr>dict_id = 3, dict_keys = {''run_path'', ''sys''}\<rparr>,
      f_builtins = {''print'', ''len''}, frame_id = 12\<rparr>"

text \<open>
  An execution of the program of scenario A, stored in file \<open>path\<close>: events of
  \<open>runpy\<close>, then the \<open>call\<close> of the module code, its three lines, and the
  \<open>return\<close> events.
\<close>

definition scenario_A_execution :: "string \<Rightarrow> execution" where
  "scenario_A_execution path =
     \<lparr>trace_events =
        [(runpy_frame 262, ''call''),
         (runpy_frame 279, ''line''),
         (module_frame path 1 {''__name__''} {''print'', ''len''} 10 1, ''call''),
         (module_frame path 1 {''__name__''} {''print'', ''len''} 10 1, ''line''),
         (module_frame path 1 {''__name__'', ''a''} {''print'', ''len''} 10 2, ''line''),
         (module_frame path 1 {''__name__'', ''a'', ''b''} {''print'', ''len''} 10 3, ''line''),
         (module_frame path 1 {''__name__'', ''a'', ''b'', ''c''} {''print'', ''len''} 10 3, ''return''),
         (runpy_frame 279, ''return'')],
      ended_by = None\<rparr>"

text \<open>
  An execution of the program of scenario B: the header of the loop, line 2, is visited
  three times (the third visit finds the list exhausted), the body twice.
\<close>

definition scenario_B_execution :: execution where
  "scenario_B_execution =
     \<lparr>trace_events =
        [(runpy_frame 262, ''call''),
         (top_frame {''__name__''} 1, ''call''),
         (top_frame {''__name__''} 1, ''line''),
         (top_frame {''__name__'', ''a''} 2, ''line''),
         (top_frame {''__name__'', ''a'', ''x''} 3, ''line''),
         (top_frame {''__name__'', ''a'', ''x'', ''y''} 2, ''line''),
         (top_frame {''__name__'', ''a'', ''x'', ''y''} 3, ''line''),
         (top_frame {''__name__'', ''a'', ''x'', ''y''} 2, ''line''),
         (top_frame {''__name__'', ''a'', ''x'', ''y''} 2, ''return''),
         (runpy_frame 279, ''return'')],
      ended_by = None\<rparr>"

text \<open>
  The tree of \<^verbatim>\<open>a = 1\<close> / \<^verbatim>\<open>b = a\<close> / \<^verbatim>\<open>c = b / 0\<close>, and its
  execution: the third line raises \<open>ZeroDivisionError\<close>, which ends the run.
\<close>

definition failing_program :: node where
  "failing_program =
     Other
       [Assign [Name ''a'' Store 1] (Other []) 1,
        Assign [Name ''b'' Store 2] (Name ''a'' Load 2) 2,
        Assign [Name ''c'' Store 3] (Other [Name ''b'' Load 3, Other [], Other []]) 3]"

definition failing_execution :: execution where
  "failing_execution =
     \<lparr>trace_events =
        [(top_frame {''__name__''} 1, ''call''),
         (top_frame {''__name__''} 1, ''line''),
         (top_frame {''__name__'', ''a''} 2, ''line''),
         (top_frame {''__name__'', ''a'', ''b''} 3, ''line''),
         (top_frame {''__name__'', ''a'', ''b''} 3, ''exception''),
         (top_frame {''__name__'', ''a'', ''b''} 3, ''return'')],
      ended_by = Some (Exception (PyException ''ZeroDivisionError''))\<rparr>"

text \<open>
  The frame of a call of a function of \<open>/tmp/t.py\<close>: the frame object has the identity
  \<open>fid\<close>, and its local names are in the dictionary \<open>d\<close>.
\<close>

definition function_frame :: "nat \<Rightarrow> nat \<Rightarrow> name set \<Rightarrow> name set \<Rightarrow> nat \<Rightarrow> frame" where
  "function_frame fid d local_ks global_ks l =
     \<lparr>co_filename = ''/tmp/t.py'', f_lineno = l,
      f_locals = Inr \<lparr>dict_id = d, dict_keys = local_ks\<rparr>,
      f_globals = \<lparr>dict_id = 1, dict_keys = global_ks\<rparr>,
      f_builtins = {''print'', ''len''}, frame_id = fid\<rparr>"

text \<open>
  The tree of the nine lines
  \<^verbatim>\<open>def f(p):\<close> / \<^verbatim>\<open>    q = p\<close> / \<^verbatim>\<open>    return q\<close> /
  \<^verbatim>\<open>def g(q):\<close> / \<^verbatim>\<open>    r = q\<close> / \<^verbatim>\<open>    return r\<close> /
  \<^verbatim>\<open>a = 1\<close> / \<^verbatim>\<open>f(a)\<close> / \<^verbatim>\<open>g(a)\<close>.
  A \<open>FunctionDef\<close> has the children \<open>args\<close> (an \<open>arguments\<close> node with one \<open>arg\<close>,
  which is no \<open>Name\<close>) and the statements of its body; a \<open>Return\<close> has its value; a
  call statement is an \<open>Expr\<close> of a \<open>Call\<close> of a \<open>Name\<close> on a \<open>Name\<close>.
\<close>

definition two_calls :: node where
  "two_calls =
     Other
       [Other [Other [Other []],
               Assign [Name ''q'' Store 2] (Name ''p'' Load 2) 2,
               Other [Name ''q'' Load 3]],
        Other [Other [Other []],
               Assign [Name ''r'' Store 5] (Name ''q'' Load 5) 5,
               Other [Name ''r'' Load 6]],
        Assign [Name ''a'' Store 7] (Other []) 7,
        Other [Other [Name ''f'' Load 8, Name ''a'' Load 8]],
        Other [Other [Name ''g'' Load 9, Name ''a'' Load 9]]]"

text \<open>
  An execution of that program. The frame of the call of \<open>f\<close> has the identity \<open>20\<close>
  and is gone when \<open>g\<close> is called; the frame of the call of \<open>g\<close> has the identity
  \<open>g_id\<close>, which the interpreter is free to choose: a new one, or \<open>20\<close> again.
\<close>

definition two_calls_execution :: "nat \<Rightarrow> execution" where
  "two_calls_execution g_id =
     \<lparr>trace_events =
        [(top_frame {''__name__''} 1, ''call''),
         (top_frame {''__name__''} 1, ''line''),
         (top_frame {''__name__'', ''f''} 4, ''line''),
         (top_frame {''__name__'', ''f'', ''g''} 7, ''line''),
         (top_frame {''__name__'', ''f'', ''g'', ''a''} 8, ''line''),
         (function_frame 20 2 {''p''} {''__name__'', ''f'', ''g'', ''a''} 1, ''call''),
         (function_frame 20 2 {''p''} {''__name__'', ''f'', ''g'', ''a''} 2, ''line''),
         (function_frame 20 2 {''p'', ''q''} {''__name__'', ''f'', ''g'', ''a''} 3, ''line''),
         (function_frame 20 2 {''p'', ''q''} {''__name__'', ''f'', ''g'', ''a''} 3, ''return''),
         (top_frame {''__name__'', ''f'', ''g'', ''a''} 9, ''line''),
         (function_frame g_id 5 {''q''} {''__name__'', ''f'', ''g'', ''a''} 4, ''call''),
         (function_frame g_id 5 {''q''} {''__name__'', ''f'', ''g'', ''a''} 5, ''line''),
         (function_frame g_id 5 {''q'', ''r''} {''__name__'', ''f'', ''g'', ''a''} 6, ''line''),
         (function_frame g_id 5 {''q'', ''r''} {''__name__'', ''f'', ''g'', ''a''} 6, ''return''),
         (top_frame {''__name__'', ''f'', ''g'', ''a''} 9, ''return'')],
      ended_by = None\<rparr>"

section \<open>Properties\<close>

subsection \<open>The loops in closed form\<close>

lemma get_current_deps_for_readable:
  "f_locals fr = Inr ls \<Longrightarrow> get_current_deps_for a fr v = Inr (current_deps a fr v)"
  by (simp add: current_deps_def get_current_deps_for_def Let_def)

lemma get_current_deps_for_raises:
  "f_locals fr = Inl e \<Longrightarrow> get_current_deps_for a fr v = Inl e"
  by (simp add: get_current_deps_for_def)

lemma union_loop_readable:
  "f_locals fr = Inr ls \<Longrightarrow>
   union_loop a fr xs acc = Inr (acc \<union> set xs \<union> (\<Union>n\<in>set xs. current_deps a fr n))"
  by (induction xs arbitrary: acc) (auto simp: get_current_deps_for_readable)

lemma store_loop_module:
  "store_loop True fid u xs a =
     a\<lparr>global_deps := (\<lambda>n. if n \<in> set xs then Some u else global_deps a n)\<rparr>"
proof (induction xs arbitrary: a)
  case Nil
  show ?case by simp
next
  case (Cons x xs)
  show ?case by (simp add: Cons.IH fun_eq_iff) 
qed

lemma store_loop_call:
  "store_loop False fid u xs a =
     a\<lparr>frame_deps := (frame_deps a)(fid := (\<lambda>n. if n \<in> set xs then Some u else frame_deps a fid n))\<rparr>"
proof (induction xs arbitrary: a)
  case Nil
  show ?case by simp
next
  case (Cons x xs)
  show ?case by (simp add: Cons.IH fun_eq_iff) 
qed

lemma snapshot_readable:
  "f_locals fr = Inr ls \<Longrightarrow>
   snapshot a fr xs m = Inr (\<lambda>v. if v \<in> set xs then Some (current_deps a fr v) else m v)"
  by (induction xs arbitrary: m) (auto simp: get_current_deps_for_readable fun_eq_iff)

lemma snapshot_raises:
  "f_locals fr = Inl e \<Longrightarrow> xs \<noteq> [] \<Longrightarrow> snapshot a fr xs m = Inl e"
  by (cases xs) (auto simp: get_current_deps_for_raises)

lemma py_sorted_enumerates:
  "enumerates it \<Longrightarrow> finite s \<Longrightarrow> py_sorted it s = sorted_list_of_set s"
  unfolding py_sorted_def enumerates_def
  by (metis distinct_remdups_id sorted_list_of_set_sort_remdups)

lemma set_py_sorted: "set (py_sorted it s) = set (it s)"
  by (simp add: py_sorted_def)

lemma emit_loop_total:
  "(\<forall>v\<in>set vs. pre v = Some (deps v)) \<Longrightarrow>
   emit_loop it l e pre vs a =
     (a\<lparr>records := records a @ concat (map (\<lambda>v. map (fmt_record l e v) (py_sorted it (deps v))) vs)\<rparr>, None)"
  by (induction vs arbitrary: a) auto

lemma cleanRhs_filter: "set (filter (\<lambda>n. \<not> is_builtin n fr) xs) = cleanRhs fr (set xs)"
  by (auto simp: cleanRhs_def)

lemma set_deps_for_assignment_readable:
  assumes "f_locals fr = Inr ls"
  shows "set_deps_for_assignment it a fr targets rhs_names =
     (if module_level fr
      then a\<lparr>global_deps := (\<lambda>n. if n \<in> set (it targets) then Some (spec_union a fr (set rhs_names)) else global_deps a n)\<rparr>
      else a\<lparr>frame_deps := (frame_deps a)(frame_id fr := (\<lambda>n. if n \<in> set (it targets) then Some (spec_union a fr (set rhs_names)) else frame_deps a (frame_id fr) n))\<rparr>, None)"
proof -
  have u: "union_loop a fr (filter (\<lambda>n. \<not> is_builtin n fr) rhs_names) {} = Inr (spec_union a fr (set rhs_names))"
    by (simp only: union_loop_readable [OF assms] cleanRhs_filter spec_union_def) (simp add: Un_commute)
  show ?thesis
    using assms
    by (simp add: set_deps_for_assignment_def u module_level_def store_loop_module store_loop_call)
qed

lemma tracer_body_line_readable:
  assumes own: "co_filename fr = source_abspath a"
    and ls: "f_locals fr = Inr ls"
  shows "tracer_body it a fr ''line'' =
    (let l = f_lineno fr;
         assigned = dict_get (assigned_by_line (collector a)) l;
         rhs = dict_get (rhs_by_line (collector a)) l;
         a1 = (if assigned \<noteq> {} then fst (set_deps_for_assignment it a fr assigned (it rhs)) else a);
         ecount = line_exec_count a l + 1
     in (a1\<lparr>line_exec_count := (line_exec_count a)(l := ecount),
            records := records a @
               concat (map (\<lambda>v. map (fmt_record l ecount v) (py_sorted it (current_deps a fr v)))
                     (py_sorted it (emitVars (collector a) l)))\<rparr>,
         Returns Analyzer_tracer))"
proof -
  let ?l = "f_lineno fr"
  let ?ev = "emitVars (collector a) ?l"
  have pre: "\<forall>v\<in>set (py_sorted it ?ev).
      (\<lambda>v. if v \<in> set (it ?ev) then Some (current_deps a fr v) else None) v = Some (current_deps a fr v)"
    by (simp add: set_py_sorted)
  show ?thesis
    using own
    by (simp add: tracer_body_def Let_def emitVars_def [symmetric] snapshot_readable [OF ls]
        set_deps_for_assignment_readable [OF ls] emit_loop_total [OF pre])
qed

lemma enumerates_sorted_list_of_set: "enumerates sorted_list_of_set"
  by (simp add: enumerates_def)

lemma enumerates_set: "enumerates it \<Longrightarrow> finite s \<Longrightarrow> set (it s) = s"
  by (simp add: enumerates_def)

lemma stored_after_assignment:
  assumes "enumerates it" and "finite targets" and "f_locals fr = Inr ls"
  shows "set_deps_for_assignment it a fr targets rhs_names =
           (fst (set_deps_for_assignment it a fr targets rhs_names), None)"
    and "stored_deps (fst (set_deps_for_assignment it a fr targets rhs_names)) fr tgt =
           (if tgt \<in> targets then Some (spec_union a fr (set rhs_names)) else stored_deps a fr tgt)"
  using assms
  by (simp_all add: set_deps_for_assignment_readable [OF assms(3)] stored_deps_def enumerates_set)

lemma enumerates_empty: "enumerates it \<Longrightarrow> it {} = []"
  using enumerates_set [of it "{}"] by simp

lemma union_loop_filter_builtin:
  "is_builtin b fr \<Longrightarrow>
   filter (\<lambda>n. \<not> is_builtin n fr) (removeAll b xs) = filter (\<lambda>n. \<not> is_builtin n fr) xs"
  by (induction xs) auto

lemma records_after_line:
  assumes "co_filename fr = source_abspath a" and "f_locals fr = Inr ls"
  shows "records (fst (tracer it a fr ''line'')) =
           records a @
             concat (map (\<lambda>v. map (fmt_record (f_lineno fr) (line_exec_count a (f_lineno fr) + 1) v)
                                 (py_sorted it (current_deps a fr v)))
                         (py_sorted it (emitVars (collector a) (f_lineno fr))))"
  by (simp add: tracer_def try_except_Exception_def tracer_body_line_readable [OF assms] Let_def)






subsection \<open>Finite sets, and the trace function without iteration order\<close>

lemma finite_dict_union:
  "finite (dict_get d k) \<Longrightarrow> finite s \<Longrightarrow> finite (dict_get (dict_union d l s) k)"
  by (cases "k = l") (simp_all add: dict_union_def dict_get_def)

lemma finite_names_in: "finite (names_in n cs)"
  unfolding names_in_def by (rule finite_set)

lemma finite_tables_fold:
  "(\<And>x c. x \<in> set xs \<Longrightarrow> finite_tables c \<Longrightarrow> finite_tables (f x c)) \<Longrightarrow>
   finite_tables c \<Longrightarrow> finite_tables (fold f xs c)"
  by (induction xs arbitrary: c) auto

lemma finite_fold_union: "finite acc \<Longrightarrow> finite (fold (\<lambda>t acc. acc \<union> targets_names t) ts acc)"
  by (induction ts arbitrary: acc) (auto simp: targets_names_def finite_names_in)

lemma finite_tables_used:
  "finite_tables c \<Longrightarrow> finite s \<Longrightarrow> finite_tables (c\<lparr>used_by_line := dict_union (used_by_line c) l s\<rparr>)"
  by (simp add: finite_tables_def finite_dict_union)

lemma finite_tables_assigned:
  "finite_tables c \<Longrightarrow> finite s \<Longrightarrow> finite_tables (c\<lparr>assigned_by_line := dict_union (assigned_by_line c) l s\<rparr>)"
  by (simp add: finite_tables_def finite_dict_union)

lemma finite_tables_rhs:
  "finite_tables c \<Longrightarrow> finite s \<Longrightarrow> finite_tables (c\<lparr>rhs_by_line := dict_union (rhs_by_line c) l s\<rparr>)"
  by (simp add: finite_tables_def finite_dict_union)

lemma finite_tables_visit: "finite_tables c \<Longrightarrow> finite_tables (visit n c)"
proof (induction n arbitrary: c)
  case (Name i x l)
  then show ?case by (simp add: finite_tables_used finite_tables_assigned)
next
  case (Assign ts v l)
  let ?as = "fold (\<lambda>t acc. acc \<union> targets_names t) ts {}"
  let ?c1 = "if ?as \<noteq> {} then c\<lparr>assigned_by_line := dict_union (assigned_by_line c) l ?as\<rparr> else c"
  let ?c2 = "?c1\<lparr>rhs_by_line := dict_union (rhs_by_line ?c1) l (value_names v)\<rparr>"
  have "finite_tables ?c1"
    using Assign.prems by (simp add: finite_tables_assigned finite_fold_union)
  then have "finite_tables ?c2"
    by (intro finite_tables_rhs) (simp_all add: value_names_def finite_names_in)
  then have "finite_tables (fold visit ts ?c2)"
    using Assign.IH(1) by (rule finite_tables_fold [rotated])
  then have "finite_tables (visit v (fold visit ts ?c2))"
    by (rule Assign.IH(2))
  then show ?case by (simp add: Let_def)
next
  case (AnnAssign t ann v l)
  let ?c2 = "case v of None \<Rightarrow> c
     | Some e \<Rightarrow> (let col1 = c\<lparr>assigned_by_line := dict_union (assigned_by_line c) l (targets_names t)\<rparr>
                  in col1\<lparr>rhs_by_line := dict_union (rhs_by_line col1) l (value_names e)\<rparr>)"
  have "finite_tables ?c2"
    using AnnAssign.prems
    by (auto split: option.splits
        simp: Let_def targets_names_def value_names_def finite_names_in finite_tables_def
          finite_dict_union)
  then have "finite_tables (visit t ?c2)"
    by (rule AnnAssign.IH(1))
  then have 3: "finite_tables (visit ann (visit t ?c2))"
    by (rule AnnAssign.IH(2))
  show ?case
  proof (cases v)
    case None
    with 3 show ?thesis by (simp add: Let_def)
  next
    case (Some e)
    with 3 AnnAssign.IH(3) [of e] show ?thesis by (simp add: Let_def)
  qed
next
  case (AugAssign t v l)
  let ?c1 = "c\<lparr>assigned_by_line := dict_union (assigned_by_line c) l (targets_names t)\<rparr>"
  let ?c2 = "?c1\<lparr>rhs_by_line := dict_union (rhs_by_line ?c1) l (value_names v)\<rparr>"
  let ?c3 = "?c2\<lparr>rhs_by_line := dict_union (rhs_by_line ?c2) l (names_in t {Load, Store, Del})\<rparr>"
  have "finite_tables ?c3"
    using AugAssign.prems
    by (intro finite_tables_rhs finite_tables_assigned)
      (simp_all add: targets_names_def value_names_def finite_names_in)
  then have "finite_tables (visit t ?c3)"
    by (rule AugAssign.IH(1))
  then have "finite_tables (visit v (visit t ?c3))"
    by (rule AugAssign.IH(2))
  then show ?case by (simp add: Let_def)
next
  case (For t i body orelse l)
  let ?c1 = "c\<lparr>assigned_by_line := dict_union (assigned_by_line c) l (targets_names t)\<rparr>"
  let ?c2 = "?c1\<lparr>rhs_by_line := dict_union (rhs_by_line ?c1) l (value_names i)\<rparr>"
  have "finite_tables ?c2"
    using For.prems
    by (intro finite_tables_rhs finite_tables_assigned)
      (simp_all add: targets_names_def value_names_def finite_names_in)
  then have "finite_tables (visit t ?c2)"
    by (rule For.IH(1))
  then have "finite_tables (visit i (visit t ?c2))"
    by (rule For.IH(2))
  then have "finite_tables (fold visit body (visit i (visit t ?c2)))"
    using For.IH(3) by (rule finite_tables_fold [rotated])
  then have "finite_tables (fold visit orelse (fold visit body (visit i (visit t ?c2))))"
    using For.IH(4) by (rule finite_tables_fold [rotated])
  then show ?case by (simp add: Let_def)
next
  case (With items body l)
  let ?f = "\<lambda>(e, ov) c.
              (let c1 = (case ov of None \<Rightarrow> c
                         | Some t \<Rightarrow> c\<lparr>assigned_by_line := dict_union (assigned_by_line c) l (targets_names t)\<rparr>)
               in c1\<lparr>rhs_by_line := dict_union (rhs_by_line c1) l (value_names e)\<rparr>)"
  let ?g = "\<lambda>(e, ov) c. (case ov of None \<Rightarrow> visit e c | Some t \<Rightarrow> visit t (visit e c))"
  have 1: "finite_tables (fold ?f items c)"
    using With.prems
    by (intro finite_tables_fold)
      (auto split: option.splits
        simp: Let_def targets_names_def value_names_def finite_names_in finite_tables_def
          finite_dict_union)
  have 2: "finite_tables (fold ?g items (fold ?f items c))"
  proof (rule finite_tables_fold [OF _ 1])
    fix x c'
    assume x: "x \<in> set items" and c': "finite_tables c'"
    obtain e ov where eo: "x = (e, ov)" by (cases x)
    have e: "finite_tables (visit e c')"
      using With.IH(1) [OF x, of e c'] c' eo by simp
    show "finite_tables (?g x c')"
    proof (cases ov)
      case None
      with e eo show ?thesis by simp
    next
      case (Some t)
      with With.IH(2) [OF x, of ov t "visit e c'"] e eo show ?thesis by simp
    qed
  qed
  have "finite_tables (fold visit body (fold ?g items (fold ?f items c)))"
    using 2 With.IH(3) by (rule finite_tables_fold [rotated])
  then show ?case by (simp add: Let_def)
next
  case (Other cs)
  then show ?case by (auto intro: finite_tables_fold)
qed

lemma finite_tables_new: "finite_tables (finalize (visit tree new_collector))"
proof -
  have "finite_tables new_collector"
    by (simp add: finite_tables_def new_collector_def dict_get_def)
  then have "finite_tables (visit tree new_collector)"
    by (rule finite_tables_visit)
  then show ?thesis
    by (simp add: finite_tables_def finalize_def)
qed

lemma finite_state_init: "finite_state (Analyzer_init path tree)"
  using finite_tables_new [of tree]
  by (simp add: finite_state_def Analyzer_init_def dict_get_def)

lemma finite_current_deps: "finite_state a \<Longrightarrow> finite (current_deps a fr v)"
  by (cases "f_locals fr")
    (auto simp: current_deps_def get_current_deps_for_def finite_state_def Let_def)

lemma finite_emitVars: "finite_tables col \<Longrightarrow> finite (emitVars col l)"
  by (simp add: emitVars_def finite_tables_def)

lemma finite_spec_union:
  "finite_state a \<Longrightarrow> finite rhs \<Longrightarrow> finite (spec_union a fr rhs)"
  by (simp add: spec_union_def cleanRhs_def finite_current_deps)

lemma tracer_foreign:
  "co_filename fr \<noteq> source_abspath a \<or> event \<noteq> ''line'' \<Longrightarrow>
   tracer it a fr event = (a, Returns Analyzer_tracer)"
  by (auto simp: tracer_def tracer_body_def try_except_Exception_def)

lemma tracer_line_step_readable:
  assumes it: "enumerates it" and fin: "finite_state a"
    and own: "co_filename fr = source_abspath a" and ls: "f_locals fr = Inr ls"
  shows "tracer it a fr ''line'' = (line_step a fr, Returns Analyzer_tracer)"
proof -
  let ?l = "f_lineno fr"
  let ?as = "dict_get (assigned_by_line (collector a)) ?l"
  let ?rhs = "dict_get (rhs_by_line (collector a)) ?l"
  let ?ev = "emitVars (collector a) ?l"
  from fin have tab: "finite_tables (collector a)" by (simp add: finite_state_def)
  then have f_as: "finite ?as" and f_rhs: "finite ?rhs" by (simp_all add: finite_tables_def)
  have f_ev: "finite ?ev" by (rule finite_emitVars [OF tab])
  have s_as: "set (it ?as) = ?as" and s_rhs: "set (it ?rhs) = ?rhs"
    by (simp_all add: enumerates_set [OF it] f_as f_rhs)
  have recs: "concat (map (\<lambda>v. map (fmt_record ?l (line_exec_count a ?l + 1) v)
                                  (py_sorted it (current_deps a fr v)))
                          (py_sorted it ?ev))
              = records_from ?l (line_exec_count a ?l + 1) ?ev (current_deps a fr)"
    by (simp add: records_from_def py_sorted_enumerates [OF it] f_ev finite_current_deps [OF fin])
  have "tracer_body it a fr ''line'' = (line_step a fr, Returns Analyzer_tracer)"
    unfolding tracer_body_line_readable [OF own ls] Let_def recs
    by (simp add: set_deps_for_assignment_readable [OF ls] s_as s_rhs line_step_def Let_def ls
        cong: if_cong)
  then show ?thesis
    by (simp add: tracer_def try_except_Exception_def)
qed

lemma union_loop_unreadable:
  "f_locals fr = Inl e \<Longrightarrow> union_loop a fr xs acc = (if xs = [] then Inr acc else Inl e)"
  by (cases xs) (simp_all add: get_current_deps_for_raises)

lemma set_deps_for_assignment_unreadable:
  "f_locals fr = Inl e \<Longrightarrow> set_deps_for_assignment it a fr targets rhs_names = (a, Some e)"
  by (simp add: set_deps_for_assignment_def union_loop_unreadable Let_def)

lemma fst_try_except_Exception:
  "fst (try_except_Exception (s, c) (\<lambda>s' e. (s', f s' e))) = s"
  by (simp add: try_except_Exception_def split: completion.splits raised.splits)

lemma tracer_line_step_unreadable:
  assumes it: "enumerates it" and fin: "finite_state a"
    and own: "co_filename fr = source_abspath a" and ul: "f_locals fr = Inl e"
  shows "fst (tracer it a fr ''line'') = line_step a fr"
proof -
  let ?l = "f_lineno fr"
  let ?as = "dict_get (assigned_by_line (collector a)) ?l"
  let ?ev = "emitVars (collector a) ?l"
  from fin have tab: "finite_tables (collector a)" by (simp add: finite_state_def)
  have f_ev: "finite ?ev" by (rule finite_emitVars [OF tab])
  have nm: "\<not> module_level fr" by (simp add: module_level_def ul)
  consider (emit) "?ev \<noteq> {}" | (assign) "?ev = {}" "?as \<noteq> {}" | (none) "?ev = {}" "?as = {}"
    by blast
  then show ?thesis
  proof cases
    case emit
    then have "it ?ev \<noteq> []"
      using enumerates_set [OF it f_ev] by auto
    then have "snapshot a fr (it ?ev) Map.empty = Inl e"
      by (rule snapshot_raises [OF ul])
    then have "tracer_body it a fr ''line'' = (a, Raises e)"
      using own by (simp add: tracer_body_def Let_def emitVars_def [symmetric])
    then show ?thesis
      using emit by (simp add: tracer_def fst_try_except_Exception line_step_def Let_def ul)
  next
    case assign
    then have "tracer_body it a fr ''line'' = (a, Raises e)"
      using own
      by (simp add: tracer_body_def Let_def emitVars_def [symmetric] enumerates_empty [OF it]
          set_deps_for_assignment_unreadable [OF ul])
    then show ?thesis
      using assign by (simp add: tracer_def fst_try_except_Exception line_step_def Let_def ul)
  next
    case none
    then show ?thesis
      using own nm
      by (simp add: tracer_def tracer_body_def try_except_Exception_def Let_def
          emitVars_def [symmetric] line_step_def enumerates_empty [OF it]
          py_sorted_def records_from_def)
  qed
qed

lemma tracer_line_step:
  assumes "enumerates it" and "finite_state a" and "co_filename fr = source_abspath a"
  shows "fst (tracer it a fr ''line'') = line_step a fr"
  by (cases "f_locals fr")
    (simp_all add: tracer_line_step_unreadable [OF assms] tracer_line_step_readable [OF assms])

lemma line_step_collector [simp]: "collector (line_step a fr) = collector a"
  by (simp add: line_step_def Let_def)

lemma line_step_source [simp]: "source_abspath (line_step a fr) = source_abspath a"
  by (simp add: line_step_def Let_def)

lemma finite_state_line_step:
  assumes "finite_state a"
  shows "finite_state (line_step a fr)"
proof -
  from assms have "finite (dict_get (rhs_by_line (collector a)) (f_lineno fr))"
    by (simp add: finite_state_def finite_tables_def)
  from finite_spec_union [OF assms this, of fr] assms show ?thesis
    by (auto simp: finite_state_def line_step_def Let_def dict_get_def)
qed

lemma fold_tracer_line_steps:
  assumes "enumerates it"
  shows "finite_state a \<Longrightarrow>
         fold (\<lambda>(fr, event) a. fst (tracer it a fr event)) evs a =
           fold (\<lambda>(fr, event) a. line_step a fr) (own_line_events (source_abspath a) evs) a"
proof (induction evs arbitrary: a)
  case Nil
  show ?case by (simp add: own_line_events_def)
next
  case (Cons ev evs)
  obtain fr event where ev: "ev = (fr, event)" by (cases ev)
  show ?case
  proof (cases "co_filename fr = source_abspath a \<and> event = ''line''")
    case True
    then have t: "fst (tracer it a fr ''line'') = line_step a fr"
      using tracer_line_step [OF assms Cons.prems] by simp
    have "finite_state (line_step a fr)"
      by (rule finite_state_line_step [OF Cons.prems])
    from Cons.IH [OF this] True show ?thesis
      by (simp add: ev t own_line_events_def)
  next
    case False
    then have t: "tracer it a fr event = (a, Returns Analyzer_tracer)"
      by (intro tracer_foreign) auto
    from Cons.IH [OF Cons.prems] False show ?thesis
      by (auto simp: ev t own_line_events_def)
  qed
qed

subsection \<open>The run as a sequence of line steps\<close>

lemma current_deps_renamed:
  "current_deps (a\<lparr>source_abspath := p\<rparr>) (fr\<lparr>co_filename := q\<rparr>) = current_deps a fr"
  by (cases "f_locals fr") (simp_all add: current_deps_def get_current_deps_for_def fun_eq_iff)

lemma spec_union_renamed:
  "spec_union (a\<lparr>source_abspath := p\<rparr>) (fr\<lparr>co_filename := q\<rparr>) = spec_union a fr"
  by (simp add: spec_union_def cleanRhs_def is_builtin_def current_deps_renamed fun_eq_iff)

lemma module_level_renamed: "module_level (fr\<lparr>co_filename := q\<rparr>) = module_level fr"
  by (cases "f_locals fr") (simp_all add: module_level_def)

lemma line_step_renamed:
  "line_step (a\<lparr>source_abspath := p\<rparr>) (fr\<lparr>co_filename := q\<rparr>)
     = (line_step a fr)\<lparr>source_abspath := p\<rparr>"
  by (simp add: line_step_def Let_def current_deps_renamed spec_union_renamed
      module_level_renamed cong: if_cong)

lemma fold_line_step_renamed:
  "fold (\<lambda>fr a. line_step a fr) (map (\<lambda>fr. fr\<lparr>co_filename := q\<rparr>) frs) (a\<lparr>source_abspath := p\<rparr>)
     = (fold (\<lambda>fr a. line_step a fr) frs a)\<lparr>source_abspath := p\<rparr>"
  by (induction frs arbitrary: a) (simp_all add: line_step_renamed)

lemma fold_line_step_views:
  "fold (\<lambda>(fr, event) a. line_step a fr) (own_line_events path evs) a
     = fold (\<lambda>fr a. line_step a fr) (map fst (own_line_events path evs)) a"
  by (simp add: fold_map comp_def case_prod_unfold)

lemma line_views_map:
  "line_views path evs = map (\<lambda>fr. fr\<lparr>co_filename := []\<rparr>) (map fst (own_line_events path evs))"
  by (simp add: line_views_def case_prod_unfold)

lemma Analyzer_init_renamed:
  "(Analyzer_init path tree)\<lparr>source_abspath := p\<rparr> = Analyzer_init p tree"
  by (simp add: Analyzer_init_def)

lemma run_records:
  assumes "enumerates it"
  shows "fst (run it (Analyzer_init path tree) sys ex) =
           Returns (records (fold (\<lambda>fr a. line_step a fr) (line_views path (trace_events ex))
                               (Analyzer_init [] tree)))"
proof -
  let ?a = "Analyzer_init path tree"
  have p: "source_abspath ?a = path" by (simp add: Analyzer_init_def)
  have "fold (\<lambda>(fr, event) a. fst (tracer it a fr event)) (trace_events ex) ?a
          = fold (\<lambda>fr a. line_step a fr) (map fst (own_line_events path (trace_events ex))) ?a"
    using fold_tracer_line_steps [OF assms finite_state_init [of path tree], of "trace_events ex"]
    by (simp only: p fold_line_step_views)
  moreover have "records (fold (\<lambda>fr a. line_step a fr) (line_views path (trace_events ex))
                               (Analyzer_init [] tree))
          = records (fold (\<lambda>fr a. line_step a fr) (map fst (own_line_events path (trace_events ex))) ?a)"
    using fold_line_step_renamed [of "[]" "map fst (own_line_events path (trace_events ex))" "[]" ?a]
    by (simp add: line_views_map Analyzer_init_renamed)
  ultimately show ?thesis
    by (simp add: run_def Let_def try_finally_def)
qed

lemma enumerates_rev: "enumerates (rev \<circ> sorted_list_of_set)"
  by (simp add: enumerates_def)

lemma frame_view_cases:
  assumes "frame_view f2 = frame_view f1"
  shows "f_lineno f2 = f_lineno f1" and "isl (f_locals f2) = isl (f_locals f1)"
    and "module_level f2 = module_level f1" and "f_builtins f2 = f_builtins f1"
    and "dict_keys (f_globals f2) = dict_keys (f_globals f1)"
    and "\<And>l1. f_locals f1 = Inr l1 \<Longrightarrow> \<exists>l2. f_locals f2 = Inr l2 \<and> dict_keys l2 = dict_keys l1"
  using assms by (auto simp: frame_view_def split: sum.splits)

lemma current_deps_similar:
  assumes "similar renamed a1 a2" and "frame_view f2 = frame_view f1"
    and "frame_id f2 = renamed (frame_id f1)"
  shows "current_deps a2 f2 v = current_deps a1 f1 v"
proof (cases "f_locals f1")
  case (Inl e)
  with frame_view_cases(2) [OF assms(2)] obtain e' where "f_locals f2 = Inl e'"
    by (cases "f_locals f2") auto
  with Inl show ?thesis
    by (simp add: current_deps_def get_current_deps_for_def)
next
  case (Inr l1)
  from frame_view_cases(6) [OF assms(2) Inr] obtain l2
    where l2: "f_locals f2 = Inr l2" "dict_keys l2 = dict_keys l1" by blast
  from frame_view_cases(3) [OF assms(2)] Inr l2
  have m: "(dict_id l2 = dict_id (f_globals f2)) = (dict_id l1 = dict_id (f_globals f1))"
    by (simp add: module_level_def)
  from assms(1) have g: "global_deps a2 = global_deps a1"
    and f: "frame_deps a2 (renamed (frame_id f1)) = frame_deps a1 (frame_id f1)"
    by (simp_all add: similar_def)
  show ?thesis
    by (simp add: current_deps_def get_current_deps_for_def Inr l2 m g f assms(3)
        frame_view_cases(5) [OF assms(2)])
qed

lemma spec_union_similar:
  assumes "similar renamed a1 a2" and "frame_view f2 = frame_view f1"
    and "frame_id f2 = renamed (frame_id f1)"
  shows "spec_union a2 f2 rhs = spec_union a1 f1 rhs"
  by (simp add: spec_union_def cleanRhs_def is_builtin_def frame_view_cases(4) [OF assms(2)]
      current_deps_similar [OF assms])

lemma line_step_similar:
  assumes inj: "inj renamed" and sim: "similar renamed a1 a2"
    and v: "frame_view f2 = frame_view f1" and i: "frame_id f2 = renamed (frame_id f1)"
  shows "similar renamed (line_step a1 f1) (line_step a2 f2)"
proof -
  have cd: "current_deps a2 f2 = current_deps a1 f1"
    by (rule ext) (rule current_deps_similar [OF sim v i])
  have su: "spec_union a2 f2 = spec_union a1 f1"
    by (rule ext) (rule spec_union_similar [OF sim v i])
  from sim have c: "collector a2 = collector a1" and r: "records a2 = records a1"
    and n: "line_exec_count a2 = line_exec_count a1" and g: "global_deps a2 = global_deps a1"
    and f: "\<And>j. frame_deps a2 (renamed j) = frame_deps a1 j"
    by (simp_all add: similar_def)
  have e: "renamed j = renamed (frame_id f1) \<longleftrightarrow> j = frame_id f1" for j
    using inj by (auto dest: injD)
  show ?thesis
    by (simp add: similar_def line_step_def Let_def cd su c r n g f e i
        frame_view_cases(1-3) [OF v] cong: if_cong)
qed

lemma fold_line_step_similar:
  assumes "inj renamed"
  shows "same_frames renamed frs1 frs2 \<Longrightarrow> similar renamed a1 a2 \<Longrightarrow>
         similar renamed (fold (\<lambda>fr a. line_step a fr) frs1 a1) (fold (\<lambda>fr a. line_step a fr) frs2 a2)"
  unfolding same_frames_def
proof (induction frs1 frs2 arbitrary: a1 a2 rule: list_all2_induct)
  case Nil
  then show ?case by simp
next
  case (Cons f1 frs1 f2 frs2)
  from line_step_similar [OF assms Cons.prems] Cons.hyps(1)
  have "similar renamed (line_step a1 f1) (line_step a2 f2)" by simp
  from Cons.IH [OF this] show ?case by simp
qed

lemma same_frames_views:
  "same_frames renamed (own_frames path1 ex1) (own_frames path2 ex2) \<Longrightarrow>
   same_frames renamed (line_views path1 (trace_events ex1)) (line_views path2 (trace_events ex2))"
  by (simp add: same_frames_def own_frames_def line_views_map list_all2_map1 list_all2_map2
        frame_view_def module_level_renamed)

subsection \<open>The two scenarios, step by step\<close>

lemma module_frame_view:
  "(module_frame path g ks bs fid l)\<lparr>co_filename := []\<rparr> = module_frame [] g ks bs fid l"
  by (simp add: module_frame_def)

lemma collector_init: "collector (Analyzer_init path tree) = finalize (visit tree new_collector)"
  by (simp add: Analyzer_init_def)

lemma scenario_A_tables:
  "dict_get (assigned_by_line (finalize (visit scenario_A new_collector))) (Suc 0) = {''a''}"
  "dict_get (rhs_by_line (finalize (visit scenario_A new_collector))) (Suc 0) = {}"
  "emitVars (finalize (visit scenario_A new_collector)) (Suc 0) = {}"
  "dict_get (assigned_by_line (finalize (visit scenario_A new_collector))) 2 = {''b''}"
  "dict_get (rhs_by_line (finalize (visit scenario_A new_collector))) 2 = {''a''}"
  "emitVars (finalize (visit scenario_A new_collector)) 2 = {''a''}"
  "dict_get (assigned_by_line (finalize (visit scenario_A new_collector))) 3 = {''c''}"
  "dict_get (rhs_by_line (finalize (visit scenario_A new_collector))) 3 = {''a'', ''b''}"
  "emitVars (finalize (visit scenario_A new_collector)) 3 = {''a'', ''b''}"
  by code_simp+

lemma module_frame_sel [simp]:
  "f_lineno (module_frame path g ks bs fid l) = l"
  "f_locals (module_frame path g ks bs fid l) = Inr \<lparr>dict_id = g, dict_keys = ks\<rparr>"
  "f_globals (module_frame path g ks bs fid l) = \<lparr>dict_id = g, dict_keys = ks\<rparr>"
  "f_builtins (module_frame path g ks bs fid l) = bs"
  "frame_id (module_frame path g ks bs fid l) = fid"
  "co_filename (module_frame path g ks bs fid l) = path"
  by (simp_all add: module_frame_def)

lemma module_level_module_frame [simp]: "module_level (module_frame path g ks bs fid l)"
  by (simp add: module_level_def)

lemma current_deps_module_frame:
  "current_deps a (module_frame path g ks bs fid l) v =
     (if v \<in> ks then dict_get (global_deps a) v else {})"
  by (simp add: current_deps_def get_current_deps_for_def)

lemma line_step_module_frame:
  "line_step a (module_frame path g ks bs fid l) =
     a\<lparr>global_deps := (\<lambda>n. if n \<in> dict_get (assigned_by_line (collector a)) l
                            then Some (spec_union a (module_frame path g ks bs fid l)
                                         (dict_get (rhs_by_line (collector a)) l))
                            else global_deps a n),
       line_exec_count := (line_exec_count a)(l := line_exec_count a l + 1),
       records := records a @ records_from l (line_exec_count a l + 1) (emitVars (collector a) l)
                                (current_deps a (module_frame path g ks bs fid l))\<rparr>"
  by (simp add: line_step_def Let_def)

lemma cleanRhs_empty: "cleanRhs fr {} = {}"
  by (simp add: cleanRhs_def)

lemma cleanRhs_insert:
  "cleanRhs fr (insert x S) = (if is_builtin x fr then cleanRhs fr S else insert x (cleanRhs fr S))"
  by (auto simp: cleanRhs_def)

lemma scenario_A_steps:
  assumes "''a'' \<notin> bs" and "''b'' \<in> K3"
  shows "records (fold (\<lambda>fr a. line_step a fr)
            [module_frame [] g K1 bs fid (Suc 0), module_frame [] g K2 bs fid 2,
             module_frame [] g K3 bs fid 3]
            (Analyzer_init [] scenario_A)) = [''3,1,b,a'']"
proof -
  define a0 where "a0 = Analyzer_init [] scenario_A"
  define a1 where "a1 = line_step a0 (module_frame [] g K1 bs fid (Suc 0))"
  define a2 where "a2 = line_step a1 (module_frame [] g K2 bs fid 2)"
  define a3 where "a3 = line_step a2 (module_frame [] g K3 bs fid 3)"
  have c0: "collector a0 = finalize (visit scenario_A new_collector)"
    unfolding a0_def by (rule collector_init)
  have c1: "collector a1 = finalize (visit scenario_A new_collector)"
    unfolding a1_def by (simp add: c0)
  have c2: "collector a2 = finalize (visit scenario_A new_collector)"
    unfolding a2_def by (simp add: c1)
  have g0: "global_deps a0 = Map.empty" and r0: "records a0 = []"
    and n0: "line_exec_count a0 = (\<lambda>l. 0)"
    by (simp_all add: a0_def Analyzer_init_def)
  have g1: "global_deps a1 ''a'' = Some {}" and r1: "records a1 = []"
    and n1: "line_exec_count a1 3 = 0"
    unfolding a1_def
    by (simp_all add: line_step_module_frame c0 scenario_A_tables g0 r0 n0 records_from_def
        spec_union_def cleanRhs_empty cleanRhs_insert)
  have d1: "current_deps a1 (module_frame [] g K2 bs fid 2) ''a'' = {}"
    by (simp add: current_deps_module_frame dict_get_def g1)
  have g2: "global_deps a2 ''a'' = Some {}" "global_deps a2 ''b'' = Some {''a''}"
    and r2: "records a2 = []" and n2: "line_exec_count a2 3 = 0"
    unfolding a2_def using assms(1)
    by (simp_all add: line_step_module_frame c1 scenario_A_tables g1 r1 n1 records_from_def
        spec_union_def cleanRhs_empty cleanRhs_insert is_builtin_def d1)
  have d2: "current_deps a2 (module_frame [] g K3 bs fid 3) ''a'' = {}"
    "current_deps a2 (module_frame [] g K3 bs fid 3) ''b'' = {''a''}"
    using assms(2) by (simp_all add: current_deps_module_frame dict_get_def g2)
  have s: "sorted_list_of_set {''a'', ''b''} = [''a'', ''b'']" by code_simp
  have f: "fmt_record 3 (Suc 0) ''b'' ''a'' = ''3,1,b,a''" by code_simp
  have "records a3 = [''3,1,b,a'']"
    unfolding a3_def
    by (simp add: line_step_module_frame c2 scenario_A_tables r2 n2 records_from_def s f d2)
  then show ?thesis
    by (simp add: a3_def a2_def a1_def a0_def)
qed

lemma scenario_B_tables:
  "dict_get (assigned_by_line (finalize (visit scenario_B new_collector))) (Suc 0) = {''a''}"
  "dict_get (rhs_by_line (finalize (visit scenario_B new_collector))) (Suc 0) = {}"
  "emitVars (finalize (visit scenario_B new_collector)) (Suc 0) = {}"
  "dict_get (assigned_by_line (finalize (visit scenario_B new_collector))) 2 = {''x''}"
  "dict_get (rhs_by_line (finalize (visit scenario_B new_collector))) 2 = {''a''}"
  "emitVars (finalize (visit scenario_B new_collector)) 2 = {''a''}"
  "dict_get (assigned_by_line (finalize (visit scenario_B new_collector))) 3 = {''y''}"
  "dict_get (rhs_by_line (finalize (visit scenario_B new_collector))) 3 = {''x''}"
  "emitVars (finalize (visit scenario_B new_collector)) 3 = {''x''}"
  by code_simp+

lemma scenario_B_steps:
  assumes "''a'' \<notin> bs" and "''x'' \<in> K3" and "''x'' \<in> K5"
  shows "records (fold (\<lambda>fr a. line_step a fr)
            [module_frame [] g K1 bs fid (Suc 0), module_frame [] g K2 bs fid 2,
             module_frame [] g K3 bs fid 3, module_frame [] g K4 bs fid 2,
             module_frame [] g K5 bs fid 3, module_frame [] g K6 bs fid 2]
            (Analyzer_init [] scenario_B)) = [''3,1,x,a'', ''3,2,x,a'']"
proof -
  define a0 where "a0 = Analyzer_init [] scenario_B"
  define a1 where "a1 = line_step a0 (module_frame [] g K1 bs fid (Suc 0))"
  define a2 where "a2 = line_step a1 (module_frame [] g K2 bs fid 2)"
  define a3 where "a3 = line_step a2 (module_frame [] g K3 bs fid 3)"
  define a4 where "a4 = line_step a3 (module_frame [] g K4 bs fid 2)"
  define a5 where "a5 = line_step a4 (module_frame [] g K5 bs fid 3)"
  define a6 where "a6 = line_step a5 (module_frame [] g K6 bs fid 2)"
  note defs = line_step_module_frame scenario_B_tables records_from_def spec_union_def
    cleanRhs_empty cleanRhs_insert is_builtin_def
  note deps = current_deps_module_frame dict_get_def
  have c0: "collector a0 = finalize (visit scenario_B new_collector)"
    unfolding a0_def by (rule collector_init)
  have c1: "collector a1 = finalize (visit scenario_B new_collector)"
    unfolding a1_def by (simp add: c0)
  have c2: "collector a2 = finalize (visit scenario_B new_collector)"
    unfolding a2_def by (simp add: c1)
  have c3: "collector a3 = finalize (visit scenario_B new_collector)"
    unfolding a3_def by (simp add: c2)
  have c4: "collector a4 = finalize (visit scenario_B new_collector)"
    unfolding a4_def by (simp add: c3)
  have c5: "collector a5 = finalize (visit scenario_B new_collector)"
    unfolding a5_def by (simp add: c4)
  have g0: "global_deps a0 = Map.empty" and r0: "records a0 = []"
    and n0: "line_exec_count a0 = (\<lambda>l. 0)"
    by (simp_all add: a0_def Analyzer_init_def)
  have g1: "global_deps a1 ''a'' = Some {}" and r1: "records a1 = []"
    and n1: "line_exec_count a1 3 = 0"
    unfolding a1_def by (simp_all add: c0 g0 r0 n0 defs)
  have d1: "current_deps a1 (module_frame [] g K2 bs fid 2) ''a'' = {}"
    by (simp add: deps g1)
  have g2: "global_deps a2 ''a'' = Some {}" "global_deps a2 ''x'' = Some {''a''}"
    and r2: "records a2 = []" and n2: "line_exec_count a2 3 = 0"
    unfolding a2_def using assms(1) by (simp_all add: c1 g1 r1 n1 d1 defs)
  have f1: "fmt_record 3 (Suc 0) ''x'' ''a'' = ''3,1,x,a''" by code_simp
  have f2: "fmt_record 3 (Suc (Suc 0)) ''x'' ''a'' = ''3,2,x,a''" by code_simp
  have d2: "current_deps a2 (module_frame [] g K3 bs fid 3) ''x'' = {''a''}"
    using assms(2) by (simp add: deps g2)
  have g3: "global_deps a3 ''a'' = Some {}" "global_deps a3 ''x'' = Some {''a''}"
    and r3: "records a3 = [''3,1,x,a'']" and n3: "line_exec_count a3 3 = Suc 0"
    unfolding a3_def by (simp_all add: c2 g2 r2 n2 f1 d2 defs)
  have d3: "current_deps a3 (module_frame [] g K4 bs fid 2) ''a'' = {}"
    by (simp add: deps g3)
  have g4: "global_deps a4 ''a'' = Some {}" "global_deps a4 ''x'' = Some {''a''}"
    and r4: "records a4 = [''3,1,x,a'']" and n4: "line_exec_count a4 3 = Suc 0"
    unfolding a4_def using assms(1) by (simp_all add: c3 g3 r3 n3 d3 defs)
  have d4: "current_deps a4 (module_frame [] g K5 bs fid 3) ''x'' = {''a''}"
    using assms(3) by (simp add: deps g4)
  have g5: "global_deps a5 ''a'' = Some {}"
    and r5: "records a5 = [''3,1,x,a'', ''3,2,x,a'']"
    unfolding a5_def by (simp_all add: c4 g4 r4 n4 f2 d4 defs)
  have d5: "current_deps a5 (module_frame [] g K6 bs fid 2) ''a'' = {}"
    by (simp add: deps g5)
  have "records a6 = [''3,1,x,a'', ''3,2,x,a'']"
    unfolding a6_def by (simp add: c5 g5 r5 d5 defs)
  then show ?thesis
    by (simp add: a6_def a5_def a4_def a3_def a2_def a1_def a0_def)
qed

subsection \<open>Runs with equal frame identities\<close>

text \<open>
  Two runs return equal results when their frames at the line events of the file show the
  same lines, namespaces and builtins and carry the same identities up to an injective
  renaming, whatever the set iteration orders, file names, states of \<open>sys\<close> and events
  of other files are.
\<close>

lemma equal_results_for_equal_frame_identities:
  assumes "enumerates it1" and "enumerates it2" and "inj renamed"
    and "same_frames renamed (own_frames path1 ex1) (own_frames path2 ex2)"
  shows "analysis_script it1 path1 tree sys1 ex1 = analysis_script it2 path2 tree sys2 ex2"
proof -
  have "similar renamed (Analyzer_init [] tree) (Analyzer_init [] tree)"
    by (simp add: similar_def Analyzer_init_def)
  from fold_line_step_similar [OF assms(3) same_frames_views [OF assms(4)] this]
  have "records (fold (\<lambda>fr a. line_step a fr) (line_views path2 (trace_events ex2)) (Analyzer_init [] tree))
      = records (fold (\<lambda>fr a. line_step a fr) (line_views path1 (trace_events ex1)) (Analyzer_init [] tree))"
    by (simp add: similar_def)
  then show ?thesis
    by (simp add: analysis_script_def run_records [OF assms(1)] run_records [OF assms(2)])
qed

lemma equal_results_example:
  "enumerates sorted_list_of_set \<and> enumerates (rev \<circ> sorted_list_of_set)
   \<and> inj (\<lambda>n::nat. n + 5)
   \<and> same_frames (\<lambda>n. n + 5) (own_frames ''/tmp/t.py'' (scenario_A_execution ''/tmp/t.py''))
         (own_frames ''/tmp/u.py''
            \<lparr>trace_events =
               [(module_frame ''/tmp/u.py'' 8 {''__name__''} {''print'', ''len''} 15 1, ''line''),
                (module_frame ''/tmp/u.py'' 8 {''__name__'', ''a''} {''print'', ''len''} 15 2, ''line''),
                (module_frame ''/tmp/u.py'' 8 {''__name__'', ''a'', ''b''} {''print'', ''len''} 15 3,
                 ''line'')],
             ended_by = None\<rparr>)
   \<and> analysis_script sorted_list_of_set ''/tmp/t.py'' scenario_A
         \<lparr>sys_trace = None, sys_path = []\<rparr> (scenario_A_execution ''/tmp/t.py'')
       = analysis_script (rev \<circ> sorted_list_of_set) ''/tmp/u.py'' scenario_A
           \<lparr>sys_trace = Some (Foreign_trace_fn 7), sys_path = [''/tmp'']\<rparr>
           \<lparr>trace_events =
               [(module_frame ''/tmp/u.py'' 8 {''__name__''} {''print'', ''len''} 15 1, ''line''),
                (module_frame ''/tmp/u.py'' 8 {''__name__'', ''a''} {''print'', ''len''} 15 2, ''line''),
                (module_frame ''/tmp/u.py'' 8 {''__name__'', ''a'', ''b''} {''print'', ''len''} 15 3,
                 ''line'')],
             ended_by = None\<rparr>"
proof -
  let ?ex2 = "\<lparr>trace_events =
               [(module_frame ''/tmp/u.py'' 8 {''__name__''} {''print'', ''len''} 15 1, ''line''),
                (module_frame ''/tmp/u.py'' 8 {''__name__'', ''a''} {''print'', ''len''} 15 2, ''line''),
                (module_frame ''/tmp/u.py'' 8 {''__name__'', ''a'', ''b''} {''print'', ''len''} 15 3,
                 ''line'')],
             ended_by = None\<rparr>"
  have i: "inj (\<lambda>n::nat. n + 5)" by (simp add: inj_def)
  have v: "same_frames (\<lambda>n. n + 5) (own_frames ''/tmp/t.py'' (scenario_A_execution ''/tmp/t.py''))
             (own_frames ''/tmp/u.py'' ?ex2)"
    by (simp add: same_frames_def own_frames_def own_line_events_def scenario_A_execution_def
        runpy_frame_def frame_view_def)
  from equal_results_for_equal_frame_identities [OF enumerates_sorted_list_of_set enumerates_rev i v]
  show ?thesis
    using enumerates_sorted_list_of_set enumerates_rev i v by blast
qed

subsection \<open>The dependency propagator\<close>

text \<open>
  Claim C1. For every frame whose local namespace can be read, every finite set of
  assigned names and every list of rhs names, \<open>_set_deps_for_assignment\<close> returns
  normally and afterwards the scope store holds, for every assigned name, one and the
  same set: the union over the rhs names that are not builtins of the dependency set
  that \<open>_get_current_deps_for\<close> gave for the name before the call, together with
  those names themselves.
\<close>

theorem propagate_stores_union:
  assumes "enumerates it" and "finite targets" and "f_locals fr = Inr ls"
  shows "\<exists>a'. set_deps_for_assignment it a fr targets rhs_names = (a', None)
            \<and> (\<forall>tgt\<in>targets. stored_deps a' fr tgt = Some (spec_union a fr (set rhs_names)))"
proof (intro exI conjI ballI)
  show "set_deps_for_assignment it a fr targets rhs_names =
          (fst (set_deps_for_assignment it a fr targets rhs_names), None)"
    by (rule stored_after_assignment(1) [OF assms])
next
  fix tgt
  assume "tgt \<in> targets"
  then show "stored_deps (fst (set_deps_for_assignment it a fr targets rhs_names)) fr tgt =
          Some (spec_union a fr (set rhs_names))"
    by (simp add: stored_after_assignment(2) [OF assms])
qed

theorem propagate_stores_union_witness:
  "enumerates sorted_list_of_set \<and> finite {''b'', ''c''}
   \<and> f_locals (top_frame {''a'', ''z''} 2) = Inr \<lparr>dict_id = 1, dict_keys = {''a'', ''z''}\<rparr>
   \<and> (\<exists>a'. set_deps_for_assignment sorted_list_of_set
               ((Analyzer_init ''/tmp/t.py'' (Other []))\<lparr>global_deps := [''a'' \<mapsto> {''z''}]\<rparr>)
               (top_frame {''a'', ''z''} 2) {''b'', ''c''} [''a'', ''len''] = (a', None)
          \<and> (\<forall>tgt\<in>{''b'', ''c''}. stored_deps a' (top_frame {''a'', ''z''} 2) tgt = Some {''a'', ''z''}))"
proof -
  let ?a = "(Analyzer_init ''/tmp/t.py'' (Other []))\<lparr>global_deps := [''a'' \<mapsto> {''z''}]\<rparr>"
  let ?fr = "top_frame {''a'', ''z''} 2"
  have ls: "f_locals ?fr = Inr \<lparr>dict_id = 1, dict_keys = {''a'', ''z''}\<rparr>"
    by (simp add: top_frame_def module_frame_def)
  have u: "spec_union ?a ?fr (set [''a'', ''len'']) = {''a'', ''z''}"
    by code_simp
  have fin: "finite {''b'', ''c''}" by simp
  show ?thesis
    using propagate_stores_union [OF enumerates_sorted_list_of_set fin ls, of ?a "[''a'', ''len'']"]
      enumerates_sorted_list_of_set ls
    by (simp only: u) simp
qed

subsection \<open>The scope store\<close>

text \<open>
  Claim C5, as stated, fails: a read is not resolved by looking for an entry in the
  invocation's local dependency store and then in the global dependency store. In the
  frame of a call whose parameter \<open>p\<close> has no entry in the local dependency store,
  while the global dependency store has the entry \<open>{a}\<close> for a module-level \<open>p\<close>,
  \<open>_get_current_deps_for\<close> returns the empty set, where the rule of the specification
  gives \<open>{a}\<close>.
\<close>

theorem scope_store_resolution_counterexample:
  "\<not> module_level (call_frame {''p''} {''a'', ''p'', ''f''} 4)
   \<and> frame_deps ((Analyzer_init ''/tmp/t.py'' (Other []))\<lparr>global_deps := [''p'' \<mapsto> {''a''}]\<rparr>)
         (frame_id (call_frame {''p''} {''a'', ''p'', ''f''} 4)) ''p'' = None
   \<and> global_deps ((Analyzer_init ''/tmp/t.py'' (Other []))\<lparr>global_deps := [''p'' \<mapsto> {''a''}]\<rparr>) ''p''
         = Some {''a''}
   \<and> get_current_deps_for
         ((Analyzer_init ''/tmp/t.py'' (Other []))\<lparr>global_deps := [''p'' \<mapsto> {''a''}]\<rparr>)
         (call_frame {''p''} {''a'', ''p'', ''f''} 4) ''p'' = Inr {}
   \<and> spec_get ((Analyzer_init ''/tmp/t.py'' (Other []))\<lparr>global_deps := [''p'' \<mapsto> {''a''}]\<rparr>)
         (call_frame {''p''} {''a'', ''p'', ''f''} 4) ''p'' = {''a''}"
  by (simp add: module_level_def call_frame_def Analyzer_init_def get_current_deps_for_def
      spec_get_def dict_get_def)

text \<open>
  Claim C5, amended. A read is resolved by where the name is bound in the running
  program. A name bound in the frame's local namespace is read from the global
  dependency store when the frame is module-level and from the frame's own dependency
  store otherwise, with the empty set for a missing entry and no fall-back to the global
  store; a name bound only in the frame's global namespace is read from the global
  dependency store; a name bound in neither has the empty set. A write in a frame that is
  not module-level goes to that frame's own dependency store and leaves the global store
  and the stores of other frames as they were.
\<close>

theorem scope_store_resolution:
  assumes "f_locals fr = Inr ls"
  shows "get_current_deps_for a fr var =
           Inr (if var \<in> dict_keys ls
                then (if module_level fr then dict_get (global_deps a) var
                      else dict_get (frame_deps a (frame_id fr)) var)
                else if var \<in> dict_keys (f_globals fr) then dict_get (global_deps a) var
                else {})
         \<and> (enumerates it \<and> finite targets \<and> \<not> module_level fr \<longrightarrow>
              (\<exists>a'. set_deps_for_assignment it a fr targets rhs_names = (a', None)
                 \<and> global_deps a' = global_deps a
                 \<and> (\<forall>fid. fid \<noteq> frame_id fr \<longrightarrow> frame_deps a' fid = frame_deps a fid)
                 \<and> (\<forall>n. frame_deps a' (frame_id fr) n =
                        (if n \<in> targets then Some (spec_union a fr (set rhs_names))
                         else frame_deps a (frame_id fr) n))))"
  using assms
  by (auto simp: get_current_deps_for_def module_level_def Let_def
      set_deps_for_assignment_readable [OF assms] enumerates_set)

theorem scope_store_resolution_witness:
  "f_locals (call_frame {''p''} {''a'', ''p'', ''f''} 4) = Inr \<lparr>dict_id = 2, dict_keys = {''p''}\<rparr>
   \<and> enumerates sorted_list_of_set \<and> finite {''q''}
   \<and> \<not> module_level (call_frame {''p''} {''a'', ''p'', ''f''} 4)
   \<and> get_current_deps_for
         ((Analyzer_init ''/tmp/t.py'' (Other []))\<lparr>global_deps := [''p'' \<mapsto> {''a''}]\<rparr>)
         (call_frame {''p''} {''a'', ''p'', ''f''} 4) ''a'' = Inr {}
   \<and> (\<exists>a'. set_deps_for_assignment sorted_list_of_set
               ((Analyzer_init ''/tmp/t.py'' (Other []))\<lparr>global_deps := [''p'' \<mapsto> {''a''}]\<rparr>)
               (call_frame {''p''} {''a'', ''p'', ''f''} 4) {''q''} [''p''] = (a', None)
          \<and> global_deps a' ''q'' = None
          \<and> frame_deps a' 11 ''q'' = Some {''p''})"
proof -
  let ?a = "(Analyzer_init ''/tmp/t.py'' (Other []))\<lparr>global_deps := [''p'' \<mapsto> {''a''}]\<rparr>"
  let ?fr = "call_frame {''p''} {''a'', ''p'', ''f''} 4"
  have ls: "f_locals ?fr = Inr \<lparr>dict_id = 2, dict_keys = {''p''}\<rparr>"
    by (simp add: call_frame_def)
  have m: "\<not> module_level ?fr"
    by (simp add: call_frame_def module_level_def)
  have u: "spec_union ?a ?fr (set [''p'']) = {''p''}"
    by code_simp
  have g: "global_deps ?a ''q'' = None"
    by (simp add: Analyzer_init_def)
  have fid: "frame_id ?fr = 11"
    by (simp add: call_frame_def)
  have k: "''a'' \<notin> dict_keys \<lparr>dict_id = 2, dict_keys = {''p''}\<rparr>" "''a'' \<in> dict_keys (f_globals ?fr)"
    by (simp_all add: call_frame_def)
  have e: "dict_get (global_deps ?a) ''a'' = {}"
    by (simp add: dict_get_def Analyzer_init_def)
  from scope_store_resolution [OF ls, of ?a "''a''" sorted_list_of_set "{''q''}" "[''p'']"]
  show ?thesis
    using enumerates_sorted_list_of_set ls m g k e
    by (simp only: u fid) auto
qed

text \<open>
  Claim C6, as stated, fails for targets: a builtin name in the assigned set gets an
  entry. For the line \<^verbatim>\<open>len = 3\<close> the global dependency store has no entry for
  \<open>len\<close> before the call and the entry \<open>{}\<close> afterwards.
\<close>

theorem builtin_exclusion_counterexample:
  "is_builtin ''len'' (top_frame {} 1)
   \<and> global_deps (Analyzer_init ''/tmp/t.py'' (Other [])) ''len'' = None
   \<and> global_deps (fst (set_deps_for_assignment sorted_list_of_set
                         (Analyzer_init ''/tmp/t.py'' (Other [])) (top_frame {} 1) {''len''} []))
        ''len'' = Some {}"
  by code_simp

text \<open>
  Claim C6, amended. A builtin name is excluded as a dependency source: it is dropped
  from the rhs names before the union is computed, so the call does what it does without
  that name, and the name is in the stored union only when it belongs to the current
  dependency set of an rhs name that is not a builtin. A builtin name in the assigned set
  is not excluded: it receives the union like every other target.
\<close>

theorem builtin_exclusion:
  assumes "enumerates it" and "finite targets" and "f_locals fr = Inr ls" and "is_builtin b fr"
  shows "set_deps_for_assignment it a fr targets rhs_names =
           set_deps_for_assignment it a fr targets (removeAll b rhs_names)
         \<and> (b \<in> spec_union a fr (set rhs_names) \<longleftrightarrow>
              (\<exists>n\<in>set rhs_names. \<not> is_builtin n fr \<and> b \<in> current_deps a fr n))
         \<and> (b \<in> targets \<longrightarrow>
              stored_deps (fst (set_deps_for_assignment it a fr targets rhs_names)) fr b =
                Some (spec_union a fr (set rhs_names)))"
proof (intro conjI impI)
  show "set_deps_for_assignment it a fr targets rhs_names =
          set_deps_for_assignment it a fr targets (removeAll b rhs_names)"
    by (simp add: set_deps_for_assignment_def union_loop_filter_builtin [OF assms(4)])
next
  show "b \<in> spec_union a fr (set rhs_names) \<longleftrightarrow>
          (\<exists>n\<in>set rhs_names. \<not> is_builtin n fr \<and> b \<in> current_deps a fr n)"
    using assms(4) by (auto simp: spec_union_def cleanRhs_def)
next
  assume "b \<in> targets"
  then show "stored_deps (fst (set_deps_for_assignment it a fr targets rhs_names)) fr b =
          Some (spec_union a fr (set rhs_names))"
    by (simp add: stored_after_assignment(2) [OF assms(1-3)])
qed

theorem builtin_exclusion_witness:
  "enumerates sorted_list_of_set \<and> finite {''b'', ''len''}
   \<and> f_locals (top_frame {''a'', ''z''} 2) = Inr \<lparr>dict_id = 1, dict_keys = {''a'', ''z''}\<rparr>
   \<and> is_builtin ''len'' (top_frame {''a'', ''z''} 2)
   \<and> set_deps_for_assignment sorted_list_of_set
         ((Analyzer_init ''/tmp/t.py'' (Other []))\<lparr>global_deps := [''a'' \<mapsto> {''z''}]\<rparr>)
         (top_frame {''a'', ''z''} 2) {''b'', ''len''} [''a'', ''len'']
       = set_deps_for_assignment sorted_list_of_set
         ((Analyzer_init ''/tmp/t.py'' (Other []))\<lparr>global_deps := [''a'' \<mapsto> {''z''}]\<rparr>)
         (top_frame {''a'', ''z''} 2) {''b'', ''len''} [''a'']
   \<and> ''len'' \<notin> spec_union
         ((Analyzer_init ''/tmp/t.py'' (Other []))\<lparr>global_deps := [''a'' \<mapsto> {''z''}]\<rparr>)
         (top_frame {''a'', ''z''} 2) {''a'', ''len''}
   \<and> stored_deps (fst (set_deps_for_assignment sorted_list_of_set
         ((Analyzer_init ''/tmp/t.py'' (Other []))\<lparr>global_deps := [''a'' \<mapsto> {''z''}]\<rparr>)
         (top_frame {''a'', ''z''} 2) {''b'', ''len''} [''a'', ''len''])) (top_frame {''a'', ''z''} 2) ''len''
       = Some {''a'', ''z''}"
proof -
  let ?a = "(Analyzer_init ''/tmp/t.py'' (Other []))\<lparr>global_deps := [''a'' \<mapsto> {''z''}]\<rparr>"
  let ?fr = "top_frame {''a'', ''z''} 2"
  have ls: "f_locals ?fr = Inr \<lparr>dict_id = 1, dict_keys = {''a'', ''z''}\<rparr>"
    by (simp add: top_frame_def module_frame_def)
  have b: "is_builtin ''len'' ?fr"
    by (simp add: top_frame_def module_frame_def is_builtin_def)
  have fin: "finite {''b'', ''len''}" by simp
  have u: "spec_union ?a ?fr (set [''a'', ''len'']) = {''a'', ''z''}"
    by code_simp
  have r: "removeAll ''len'' [''a'', ''len''] = [''a'']" by simp
  have s: "set [''a'', ''len''] = {''a'', ''len''}" by simp
  have n: "''len'' \<notin> {''a'', ''z''}" by simp
  have m: "''len'' \<in> {''b'', ''len''}" by simp
  note t = builtin_exclusion [OF enumerates_sorted_list_of_set fin ls b, of ?a "[''a'', ''len'']"]
  have c1: "set_deps_for_assignment sorted_list_of_set ?a ?fr {''b'', ''len''} [''a'', ''len'']
              = set_deps_for_assignment sorted_list_of_set ?a ?fr {''b'', ''len''} [''a'']"
    using t unfolding r by (rule conjunct1)
  have c2: "''len'' \<notin> spec_union ?a ?fr {''a'', ''len''}"
    using u [unfolded s] by simp
  have c3: "stored_deps (fst (set_deps_for_assignment sorted_list_of_set ?a ?fr {''b'', ''len''}
              [''a'', ''len''])) ?fr ''len'' = Some {''a'', ''z''}"
    using t m unfolding u by blast
  show ?thesis
    using enumerates_sorted_list_of_set fin ls b c1 c2 c3 by blast
qed

subsection \<open>The trace function\<close>

text \<open>
  Claim C7, as stated, fails for the line's own counter: the hook has no early exit for a
  line without classification and increments \<open>line_exec_count\<close> on every \<open>line\<close>
  event of the analyzed file. Line 5 (\<^verbatim>\<open>pass\<close>) of the example has no entry in any
  of the three tables, and its counter goes from \<open>0\<close> to \<open>1\<close>.
\<close>

theorem unclassified_line_counterexample:
  "used_by_line (collector (Analyzer_init ''/tmp/t.py'' accumulate)) 5 = None
   \<and> assigned_by_line (collector (Analyzer_init ''/tmp/t.py'' accumulate)) 5 = None
   \<and> rhs_by_line (collector (Analyzer_init ''/tmp/t.py'' accumulate)) 5 = None
   \<and> line_exec_count (Analyzer_init ''/tmp/t.py'' accumulate) 5 = 0
   \<and> line_exec_count (fst (tracer sorted_list_of_set (Analyzer_init ''/tmp/t.py'' accumulate)
                               (top_frame {''s'', ''x'', ''t''} 5) ''line'')) 5 = 1"
  by code_simp

text \<open>
  Claim C7, amended. For a \<open>line\<close> event of the analyzed file on a line with no used,
  assigned or rhs names, the hook returns the trace function and changes nothing but the
  line's own counter, which it increments by one: the record list, every entry of the
  scope store and the counter of every other line are as before.
\<close>

theorem unclassified_line:
  assumes "enumerates it"
    and "co_filename fr = source_abspath a"
    and "dict_get (used_by_line (collector a)) (f_lineno fr) = {}"
    and "dict_get (assigned_by_line (collector a)) (f_lineno fr) = {}"
    and "dict_get (rhs_by_line (collector a)) (f_lineno fr) = {}"
  shows "tracer it a fr ''line'' =
           (a\<lparr>line_exec_count :=
                (line_exec_count a)(f_lineno fr := line_exec_count a (f_lineno fr) + 1)\<rparr>,
            Returns Analyzer_tracer)"
  using assms(2-5)
  by (simp add: tracer_def tracer_body_def try_except_Exception_def Let_def
      enumerates_empty [OF assms(1)] py_sorted_def)

theorem unclassified_line_witness:
  "enumerates sorted_list_of_set
   \<and> co_filename (top_frame {''s'', ''x'', ''t''} 5) = source_abspath (Analyzer_init ''/tmp/t.py'' accumulate)
   \<and> dict_get (used_by_line (collector (Analyzer_init ''/tmp/t.py'' accumulate))) 5 = {}
   \<and> dict_get (assigned_by_line (collector (Analyzer_init ''/tmp/t.py'' accumulate))) 5 = {}
   \<and> dict_get (rhs_by_line (collector (Analyzer_init ''/tmp/t.py'' accumulate))) 5 = {}
   \<and> tracer sorted_list_of_set (Analyzer_init ''/tmp/t.py'' accumulate)
        (top_frame {''s'', ''x'', ''t''} 5) ''line''
      = ((Analyzer_init ''/tmp/t.py'' accumulate)
           \<lparr>line_exec_count := (line_exec_count (Analyzer_init ''/tmp/t.py'' accumulate))(5 := 1)\<rparr>,
         Returns Analyzer_tracer)"
proof -
  let ?a = "Analyzer_init ''/tmp/t.py'' accumulate"
  let ?fr = "top_frame {''s'', ''x'', ''t''} 5"
  have own: "co_filename ?fr = source_abspath ?a"
    by (simp add: top_frame_def module_frame_def Analyzer_init_def)
  have l: "f_lineno ?fr = 5"
    by (simp add: top_frame_def module_frame_def)
  have u: "dict_get (used_by_line (collector ?a)) 5 = {}" by code_simp
  have as: "dict_get (assigned_by_line (collector ?a)) 5 = {}" by code_simp
  have r: "dict_get (rhs_by_line (collector ?a)) 5 = {}" by code_simp
  have c: "line_exec_count ?a 5 + 1 = 1" by (simp add: Analyzer_init_def)
  from unclassified_line [OF enumerates_sorted_list_of_set own, unfolded l, OF u as r]
  have "tracer sorted_list_of_set ?a ?fr ''line''
          = (?a\<lparr>line_exec_count := (line_exec_count ?a)(5 := 1)\<rparr>, Returns Analyzer_tracer)"
    unfolding c .
  with enumerates_sorted_list_of_set own u as r show ?thesis by blast
qed

text \<open>
  Claim C4. On a \<open>line\<close> event of the analyzed file in a frame whose local namespace
  can be read, the records appended are exactly those built, in lexicographic order, from
  the dependency set that each emit variable has in the analyzer state before the call,
  with the line's counter after its increment; the state after the propagator has
  updated the store plays no part. (The sets are finite, as every Python set is.)
\<close>

theorem read_before_write:
  assumes "enumerates it"
    and "co_filename fr = source_abspath a"
    and "f_locals fr = Inr ls"
    and "finite (emitVars (collector a) (f_lineno fr))"
    and "\<forall>v\<in>emitVars (collector a) (f_lineno fr). finite (current_deps a fr v)"
  shows "records (fst (tracer it a fr ''line'')) =
           records a @ records_from (f_lineno fr) (line_exec_count a (f_lineno fr) + 1)
                         (emitVars (collector a) (f_lineno fr)) (current_deps a fr)"
proof -
  let ?vs = "emitVars (collector a) (f_lineno fr)"
  have vs: "py_sorted it ?vs = sorted_list_of_set ?vs"
    by (rule py_sorted_enumerates [OF assms(1,4)])
  have ds: "\<forall>v\<in>set (sorted_list_of_set ?vs).
              py_sorted it (current_deps a fr v) = sorted_list_of_set (current_deps a fr v)"
    using assms(4,5) by (simp add: py_sorted_enumerates [OF assms(1)])
  show ?thesis
    unfolding records_after_line [OF assms(2,3)] vs records_from_def
    using ds by (simp cong: map_cong)
qed

theorem read_before_write_witness:
  "enumerates sorted_list_of_set
   \<and> co_filename (top_frame {''s'', ''x'', ''t''} 4) = source_abspath before_line_4
   \<and> f_locals (top_frame {''s'', ''x'', ''t''} 4) = Inr \<lparr>dict_id = 1, dict_keys = {''s'', ''x'', ''t''}\<rparr>
   \<and> emitVars (collector before_line_4) 4 = {''t'', ''x''}
   \<and> current_deps before_line_4 (top_frame {''s'', ''x'', ''t''} 4) ''t'' = {''s''}
   \<and> current_deps before_line_4 (top_frame {''s'', ''x'', ''t''} 4) ''x'' = {}
   \<and> current_deps (fst (tracer sorted_list_of_set before_line_4 (top_frame {''s'', ''x'', ''t''} 4) ''line''))
         (top_frame {''s'', ''x'', ''t''} 4) ''t'' = {''s'', ''t'', ''x''}
   \<and> records (fst (tracer sorted_list_of_set before_line_4 (top_frame {''s'', ''x'', ''t''} 4) ''line''))
       = records before_line_4 @ [''4,1,t,s'']"
proof -
  let ?fr = "top_frame {''s'', ''x'', ''t''} 4"
  have own: "co_filename ?fr = source_abspath before_line_4" by code_simp
  have ls: "f_locals ?fr = Inr \<lparr>dict_id = 1, dict_keys = {''s'', ''x'', ''t''}\<rparr>"
    by (simp add: top_frame_def module_frame_def)
  have l: "f_lineno ?fr = 4" by (simp add: top_frame_def module_frame_def)
  have ev: "emitVars (collector before_line_4) 4 = {''t'', ''x''}" by code_simp
  have dt: "current_deps before_line_4 ?fr ''t'' = {''s''}" by code_simp
  have dx: "current_deps before_line_4 ?fr ''x'' = {}" by code_simp
  have post: "current_deps (fst (tracer sorted_list_of_set before_line_4 ?fr ''line'')) ?fr ''t''
                = {''s'', ''t'', ''x''}" by code_simp
  have c: "line_exec_count before_line_4 4 = 0" by code_simp
  have fin: "finite (emitVars (collector before_line_4) (f_lineno ?fr))"
    by (simp add: l ev)
  have fin2: "\<forall>v\<in>emitVars (collector before_line_4) (f_lineno ?fr). finite (current_deps before_line_4 ?fr v)"
    by (simp add: l ev dt dx)
  have r: "records_from 4 (0 + 1) {''t'', ''x''} (current_deps before_line_4 ?fr) = [''4,1,t,s'']"
  proof -
    have "sorted_list_of_set {''t'', ''x''} = [''t'', ''x'']" by code_simp
    moreover have "fmt_record 4 (0 + 1) ''t'' ''s'' = ''4,1,t,s''" by code_simp
    ultimately show ?thesis by (simp add: records_from_def dt dx)
  qed
  have "records (fst (tracer sorted_list_of_set before_line_4 ?fr ''line''))
          = records before_line_4 @ [''4,1,t,s'']"
    using read_before_write [OF enumerates_sorted_list_of_set own ls fin fin2]
    unfolding l ev c r .
  then show ?thesis
    using enumerates_sorted_list_of_set own ls ev dt dx post by blast
qed




subsection \<open>The run\<close>

text \<open>
  Claim C10. \<open>Analyzer.run\<close> is always left by \<open>return self.records\<close>: whether the
  execution of the analyzed file ends normally or by an exception of any class, the call
  returns the record list as the trace calls on the delivered events have left it, no
  exception leaves the call, and the trace function installed in \<open>sys\<close> afterwards is
  the one that was installed before.
\<close>

theorem run_returns_records:
  "fst (run it a sys ex) =
     Returns (records (fold (\<lambda>(fr, event) a. fst (tracer it a fr event)) (trace_events ex) a))
   \<and> fst (snd (run it a sys ex)) =
       fold (\<lambda>(fr, event) a. fst (tracer it a fr event)) (trace_events ex) a
   \<and> sys_trace (snd (snd (run it a sys ex))) = sys_trace sys"
  by (simp add: run_def Let_def try_finally_def)

theorem run_returns_records_witness:
  "ended_by failing_execution = Some (Exception (PyException ''ZeroDivisionError''))
   \<and> fst (run sorted_list_of_set (Analyzer_init ''/tmp/t.py'' failing_program)
             \<lparr>sys_trace = Some (Foreign_trace_fn 7), sys_path = []\<rparr> failing_execution)
       = Returns [''3,1,b,a'']
   \<and> sys_trace (snd (snd (run sorted_list_of_set (Analyzer_init ''/tmp/t.py'' failing_program)
             \<lparr>sys_trace = Some (Foreign_trace_fn 7), sys_path = []\<rparr> failing_execution)))
       = Some (Foreign_trace_fn 7)"
proof -
  let ?a = "Analyzer_init ''/tmp/t.py'' failing_program"
  let ?sys = "\<lparr>sys_trace = Some (Foreign_trace_fn 7), sys_path = []\<rparr>"
  have e: "ended_by failing_execution = Some (Exception (PyException ''ZeroDivisionError''))"
    by (simp add: failing_execution_def)
  have r: "records (fold (\<lambda>(fr, event) a. fst (tracer sorted_list_of_set a fr event))
                      (trace_events failing_execution) ?a) = [''3,1,b,a'']"
    by code_simp
  note t = run_returns_records [of sorted_list_of_set ?a ?sys failing_execution]
  have 1: "fst (run sorted_list_of_set ?a ?sys failing_execution) = Returns [''3,1,b,a'']"
    using t [THEN conjunct1] r by simp
  have 2: "sys_trace (snd (snd (run sorted_list_of_set ?a ?sys failing_execution)))
             = Some (Foreign_trace_fn 7)"
    using t [THEN conjunct2, THEN conjunct2] by simp
  from e 1 2 show ?thesis by blast
qed

text \<open>
  Claim C9 fails on the code. The dependency stores of calls are kept under \<open>id(frame)\<close>
  and are never cleared, and the identity of a frame that is gone may be given to a later
  frame. In the program of two calls, the frame of \<open>g\<close> either has a new identity or
  has that of the frame of \<open>f\<close>. In the second case the read of the parameter \<open>q\<close> of
  \<open>g\<close> finds the entry that the local \<open>q\<close> of \<open>f\<close> left behind. The two executions
  show the same lines, namespaces and builtins at every line event, and the analysis
  returns two records for the one and four for the other.
\<close>

theorem frame_identity_reuse:
  "analysis_script sorted_list_of_set ''/tmp/t.py'' two_calls
       \<lparr>sys_trace = None, sys_path = []\<rparr> (two_calls_execution 21)
     = Inr [\<lparr>line = 3, execution = 1, variable = ''q'', dependency = ''p''\<rparr>,
            \<lparr>line = 6, execution = 1, variable = ''r'', dependency = ''q''\<rparr>]
   \<and> analysis_script sorted_list_of_set ''/tmp/t.py'' two_calls
       \<lparr>sys_trace = None, sys_path = []\<rparr> (two_calls_execution 20)
     = Inr [\<lparr>line = 3, execution = 1, variable = ''q'', dependency = ''p''\<rparr>,
            \<lparr>line = 5, execution = 1, variable = ''q'', dependency = ''p''\<rparr>,
            \<lparr>line = 6, execution = 1, variable = ''r'', dependency = ''p''\<rparr>,
            \<lparr>line = 6, execution = 1, variable = ''r'', dependency = ''q''\<rparr>]
   \<and> map frame_view (own_frames ''/tmp/t.py'' (two_calls_execution 21))
     = map frame_view (own_frames ''/tmp/t.py'' (two_calls_execution 20))"
  by code_simp

subsection \<open>The scenarios\<close>

text \<open>
  Claim C2 (scenario A). For the program \<^verbatim>\<open>a = 1\<close> / \<^verbatim>\<open>b = a\<close> /
  \<^verbatim>\<open>c = b + a\<close> the analysis returns exactly one record,
  \<open>{line: 3, execution: 1, variable: "b", dependency: "a"}\<close>: none for line 2 and none
  for \<open>c\<close>. This holds for every execution whose \<open>line\<close> events in the analyzed file are
  those of lines 1, 2 and 3 in the module-level frame, with \<open>b\<close> bound when line 3 is
  reached, provided \<open>a\<close> is not the name of a builtin; the set iteration order, the file
  name, the other names in the namespace and the events of other files are arbitrary.
\<close>

theorem scenario_A_output:
  assumes "enumerates it" and "''a'' \<notin> bs" and "''b'' \<in> K3"
    and "own_line_events path (trace_events ex) =
           [(module_frame path g K1 bs fid 1, ''line''),
            (module_frame path g K2 bs fid 2, ''line''),
            (module_frame path g K3 bs fid 3, ''line'')]"
  shows "analysis_script it path scenario_A sys ex =
           Inr [\<lparr>line = 3, execution = 1, variable = ''b'', dependency = ''a''\<rparr>]"
proof -
  have v: "line_views path (trace_events ex) =
             [module_frame [] g K1 bs fid (Suc 0), module_frame [] g K2 bs fid 2,
              module_frame [] g K3 bs fid 3]"
    by (simp add: line_views_def assms(4) module_frame_view)
  have "fst (run it (Analyzer_init path scenario_A) sys ex) = Returns [''3,1,b,a'']"
    unfolding run_records [OF assms(1)] v scenario_A_steps [OF assms(2,3)] ..
  moreover have "result_list [''3,1,b,a''] =
             Inr [\<lparr>line = 3, execution = 1, variable = ''b'', dependency = ''a''\<rparr>]"
    by code_simp
  ultimately show ?thesis
    by (simp add: analysis_script_def)
qed

theorem scenario_A_output_witness:
  "enumerates sorted_list_of_set \<and> ''a'' \<notin> {''print'', ''len''}
   \<and> ''b'' \<in> {''__name__'', ''a'', ''b''}
   \<and> own_line_events ''/tmp/t.py'' (trace_events (scenario_A_execution ''/tmp/t.py'')) =
         [(module_frame ''/tmp/t.py'' 1 {''__name__''} {''print'', ''len''} 10 1, ''line''),
          (module_frame ''/tmp/t.py'' 1 {''__name__'', ''a''} {''print'', ''len''} 10 2, ''line''),
          (module_frame ''/tmp/t.py'' 1 {''__name__'', ''a'', ''b''} {''print'', ''len''} 10 3, ''line'')]
   \<and> analysis_script sorted_list_of_set ''/tmp/t.py'' scenario_A
         \<lparr>sys_trace = None, sys_path = []\<rparr> (scenario_A_execution ''/tmp/t.py'') =
           Inr [\<lparr>line = 3, execution = 1, variable = ''b'', dependency = ''a''\<rparr>]"
proof -
  have a: "''a'' \<notin> {''print'', ''len''}" by simp
  have b: "''b'' \<in> {''__name__'', ''a'', ''b''}" by simp
  have e: "own_line_events ''/tmp/t.py'' (trace_events (scenario_A_execution ''/tmp/t.py'')) =
         [(module_frame ''/tmp/t.py'' 1 {''__name__''} {''print'', ''len''} 10 1, ''line''),
          (module_frame ''/tmp/t.py'' 1 {''__name__'', ''a''} {''print'', ''len''} 10 2, ''line''),
          (module_frame ''/tmp/t.py'' 1 {''__name__'', ''a'', ''b''} {''print'', ''len''} 10 3, ''line'')]"
    by (simp add: own_line_events_def scenario_A_execution_def runpy_frame_def)
  from scenario_A_output [OF enumerates_sorted_list_of_set a b e]
  show ?thesis
    using enumerates_sorted_list_of_set a b e by blast
qed

text \<open>
  Claim C3 (scenario B). For the program \<^verbatim>\<open>a = [1, 2]\<close> / \<^verbatim>\<open>for x in a:\<close> /
  \<^verbatim>\<open>    y = x\<close> the analysis returns exactly two records, in this order:
  \<open>{line: 3, execution: 1, variable: "x", dependency: "a"}\<close> and
  \<open>{line: 3, execution: 2, variable: "x", dependency: "a"}\<close>. The loop header, line 2,
  is visited three times and contributes no record; the two visits of line 3 carry the
  execution counts 1 and 2. This holds for every execution whose \<open>line\<close> events in the
  analyzed file are those of lines 1, 2, 3, 2, 3, 2 in the module-level frame, with \<open>x\<close>
  bound at both visits of line 3, provided \<open>a\<close> is not the name of a builtin.
\<close>

theorem scenario_B_output:
  assumes "enumerates it" and "''a'' \<notin> bs" and "''x'' \<in> K3" and "''x'' \<in> K5"
    and "own_line_events path (trace_events ex) =
           [(module_frame path g K1 bs fid 1, ''line''),
            (module_frame path g K2 bs fid 2, ''line''),
            (module_frame path g K3 bs fid 3, ''line''),
            (module_frame path g K4 bs fid 2, ''line''),
            (module_frame path g K5 bs fid 3, ''line''),
            (module_frame path g K6 bs fid 2, ''line'')]"
  shows "analysis_script it path scenario_B sys ex =
           Inr [\<lparr>line = 3, execution = 1, variable = ''x'', dependency = ''a''\<rparr>,
                \<lparr>line = 3, execution = 2, variable = ''x'', dependency = ''a''\<rparr>]"
proof -
  have v: "line_views path (trace_events ex) =
             [module_frame [] g K1 bs fid (Suc 0), module_frame [] g K2 bs fid 2,
              module_frame [] g K3 bs fid 3, module_frame [] g K4 bs fid 2,
              module_frame [] g K5 bs fid 3, module_frame [] g K6 bs fid 2]"
    by (simp add: line_views_def assms(5) module_frame_view)
  have "fst (run it (Analyzer_init path scenario_B) sys ex)
          = Returns [''3,1,x,a'', ''3,2,x,a'']"
    unfolding run_records [OF assms(1)] v scenario_B_steps [OF assms(2,3,4)] ..
  moreover have "result_list [''3,1,x,a'', ''3,2,x,a''] =
           Inr [\<lparr>line = 3, execution = 1, variable = ''x'', dependency = ''a''\<rparr>,
                \<lparr>line = 3, execution = 2, variable = ''x'', dependency = ''a''\<rparr>]"
    by code_simp
  ultimately show ?thesis
    by (simp add: analysis_script_def)
qed

theorem scenario_B_output_witness:
  "enumerates sorted_list_of_set \<and> ''a'' \<notin> {''print'', ''len''}
   \<and> ''x'' \<in> {''__name__'', ''a'', ''x''} \<and> ''x'' \<in> {''__name__'', ''a'', ''x'', ''y''}
   \<and> own_line_events ''/tmp/t.py'' (trace_events scenario_B_execution) =
         [(top_frame {''__name__''} 1, ''line''),
          (top_frame {''__name__'', ''a''} 2, ''line''),
          (top_frame {''__name__'', ''a'', ''x''} 3, ''line''),
          (top_frame {''__name__'', ''a'', ''x'', ''y''} 2, ''line''),
          (top_frame {''__name__'', ''a'', ''x'', ''y''} 3, ''line''),
          (top_frame {''__name__'', ''a'', ''x'', ''y''} 2, ''line'')]
   \<and> analysis_script sorted_list_of_set ''/tmp/t.py'' scenario_B
         \<lparr>sys_trace = None, sys_path = []\<rparr> scenario_B_execution =
           Inr [\<lparr>line = 3, execution = 1, variable = ''x'', dependency = ''a''\<rparr>,
                \<lparr>line = 3, execution = 2, variable = ''x'', dependency = ''a''\<rparr>]"
proof -
  have a: "''a'' \<notin> {''print'', ''len''}" by simp
  have x3: "''x'' \<in> {''__name__'', ''a'', ''x''}" by simp
  have x5: "''x'' \<in> {''__name__'', ''a'', ''x'', ''y''}" by simp
  have e: "own_line_events ''/tmp/t.py'' (trace_events scenario_B_execution) =
         [(top_frame {''__name__''} 1, ''line''),
          (top_frame {''__name__'', ''a''} 2, ''line''),
          (top_frame {''__name__'', ''a'', ''x''} 3, ''line''),
          (top_frame {''__name__'', ''a'', ''x'', ''y''} 2, ''line''),
          (top_frame {''__name__'', ''a'', ''x'', ''y''} 3, ''line''),
          (top_frame {''__name__'', ''a'', ''x'', ''y''} 2, ''line'')]"
    by (simp add: own_line_events_def scenario_B_execution_def runpy_frame_def top_frame_def)
  from scenario_B_output [OF enumerates_sorted_list_of_set a x3 x5 e [unfolded top_frame_def]]
  show ?thesis
    using enumerates_sorted_list_of_set a x3 x5 e by blast
qed

end
